theory Spec2Isabelle
  imports Complex_Main "HOL-Library.Multiset" "HOL-Library.Char_ord" "HOL-Library.List_Lexorder"
begin

section \<open>JavaScript values\<close>

text \<open>
  The hashing service works on plain JavaScript values. A number is an IEEE double: a
  finite value (a rational here, so that \<open>25.5\<close> is a value of the model) or one of the
  three non-finite values. A string is a sequence of code units; the model has 8-bit
  code units, compared unit by unit as the default \<open>Array.prototype.sort\<close> does.
  An object is the list of its own enumerable properties in insertion order; an object
  of the language has no key twice. \<open>Date\<close> objects, buffers, symbols and big integers
  are not values of the model, and a value is a finite tree: it has no cycle.
\<close>

datatype jsnumber = Finite rat | NaN | PosInfinity | NegInfinity

datatype primitive =
    PUndefined
  | PNull
  | PBool bool
  | PNum jsnumber
  | PStr string
  | PFunction

datatype jsval =
    Prim primitive
  | JArr "jsval list"
  | JObj "(string \<times> jsval) list"

text \<open>The errors the modelled code raises: a \<open>TypeError\<close> of the runtime and the
  \<open>Error\<close> thrown by the service for a batch that is not stored.\<close>

datatype error = TypeError | BatchNotFound string

text \<open>\<open>!!x\<close>: the values that count as false are \<open>undefined\<close>, \<open>null\<close>, \<open>false\<close>,
  zero, \<open>NaN\<close> and the empty string.\<close>

fun truthy_num :: "jsnumber \<Rightarrow> bool" where
  "truthy_num (Finite q) = (q \<noteq> 0)"
| "truthy_num NaN = False"
| "truthy_num PosInfinity = True"
| "truthy_num NegInfinity = True"

fun truthy :: "jsval \<Rightarrow> bool" where
  "truthy (Prim PUndefined) = False"
| "truthy (Prim PNull) = False"
| "truthy (Prim (PBool b)) = b"
| "truthy (Prim (PNum n)) = truthy_num n"
| "truthy (Prim (PStr s)) = (s \<noteq> [])"
| "truthy (Prim PFunction) = True"
| "truthy (JArr xs) = True"
| "truthy (JObj kvs) = True"

text \<open>\<open>obj[key]\<close>: the value of an own property, \<open>undefined\<close> when there is none.\<close>

definition lookup :: "(string \<times> jsval) list \<Rightarrow> string \<Rightarrow> jsval" where
  "lookup kvs k = (case map_of kvs k of None \<Rightarrow> Prim PUndefined | Some v \<Rightarrow> v)"

section \<open>\<open>JSON.stringify\<close> on primitives\<close>

definition hexdigit :: "nat \<Rightarrow> char" where
  "hexdigit n = ''0123456789abcdef'' ! (n mod 16)"

text \<open>The quoting of one code unit of a string (ECMAScript \<open>QuoteJSONString\<close>).\<close>

definition quote_char :: "char \<Rightarrow> string" where
  "quote_char c =
     (if c = CHR 0x08 then [CHR 0x5C, CHR ''b'']
      else if c = CHR 0x09 then [CHR 0x5C, CHR ''t'']
      else if c = CHR 0x0A then [CHR 0x5C, CHR ''n'']
      else if c = CHR 0x0C then [CHR 0x5C, CHR ''f'']
      else if c = CHR 0x0D then [CHR 0x5C, CHR ''r'']
      else if c = CHR 0x22 then [CHR 0x5C, CHR 0x22]
      else if c = CHR 0x5C then [CHR 0x5C, CHR 0x5C]
      else if (of_char c :: nat) < 0x20
        then [CHR 0x5C, CHR ''u'', CHR ''0'', CHR ''0'',
              hexdigit (of_char c div 16), hexdigit (of_char c)]
      else [c])"

definition quote_string :: "string \<Rightarrow> string" where
  "quote_string s = [CHR 0x22] @ concat (map quote_char s) @ [CHR 0x22]"

text \<open>
  \<open>JSON.stringify\<close> of a primitive. It returns the value \<open>undefined\<close> (\<open>None\<close>) for
  \<open>undefined\<close> and for a function, and the text \<open>null\<close> for a number that is not finite.
  The decimal text of a finite number is the platform's \<open>Number::toString\<close>, the
  parameter \<open>nf\<close>.
\<close>

fun JSON_stringify :: "(rat \<Rightarrow> string) \<Rightarrow> primitive \<Rightarrow> string option" where
  "JSON_stringify nf PUndefined = None"
| "JSON_stringify nf PNull = Some ''null''"
| "JSON_stringify nf (PBool b) = Some (if b then ''true'' else ''false'')"
| "JSON_stringify nf (PNum (Finite q)) = Some (nf q)"
| "JSON_stringify nf (PNum NaN) = Some ''null''"
| "JSON_stringify nf (PNum PosInfinity) = Some ''null''"
| "JSON_stringify nf (PNum NegInfinity) = Some ''null''"
| "JSON_stringify nf (PStr s) = Some (quote_string s)"
| "JSON_stringify nf PFunction = None"

section \<open>The canonical encoder and the digest\<close>

text \<open>\<open>Array.prototype.join\<close>: the elements separated by the separator.\<close>

fun join :: "string \<Rightarrow> string list \<Rightarrow> string" where
  "join sep [] = []"
| "join sep [x] = x"
| "join sep (x # y # ys) = x @ sep @ join sep (y # ys)"

text \<open>\<open>join\<close> writes an element that is \<open>undefined\<close> as the empty string; string
  concatenation writes it as the text \<open>undefined\<close>.\<close>

definition join_item :: "string option \<Rightarrow> string" where
  "join_item r = (case r of None \<Rightarrow> [] | Some s \<Rightarrow> s)"

definition concat_operand :: "string option \<Rightarrow> string" where
  "concat_operand r = (case r of None \<Rightarrow> ''undefined'' | Some s \<Rightarrow> s)"

text \<open>
  \<open>canonicalizeJSON\<close>: a primitive goes to \<open>JSON.stringify\<close>; an array is its encoded
  items joined by commas; an object is its keys, sorted, those with an \<open>undefined\<close> value
  dropped, each written as the quoted key, a colon and the encoded value.
\<close>

function canonicalizeJSON :: "(rat \<Rightarrow> string) \<Rightarrow> jsval \<Rightarrow> string option" where
  "canonicalizeJSON nf (Prim p) = JSON_stringify nf p"
| "canonicalizeJSON nf (JArr xs) =
     Some (''['' @ join '','' (map (\<lambda>item. join_item (canonicalizeJSON nf item)) xs) @ '']'')"
| "canonicalizeJSON nf (JObj kvs) =
     (let sortedKeys = sort (map fst kvs);
          pairs = map (\<lambda>key. quote_string key @ '':'' @
                          concat_operand (canonicalizeJSON nf (lookup kvs key)))
                    (filter (\<lambda>key. lookup kvs key \<noteq> Prim PUndefined) sortedKeys)
      in Some (''{'' @ join '','' pairs @ ''}''))"
  by pat_completeness auto
termination
proof (relation "measure (\<lambda>(nf, v). size v)", goal_cases)
  case 1
  show ?case by simp
next
  case (2 nf xs item)
  then show ?case by (induction xs) auto
next
  case (3 nf kvs sortedKeys key)
  have smaller: "map_of kvs k = Some v \<Longrightarrow> size v < Suc (size_list (size_prod (\<lambda>_. 0) size) kvs)"
    for k v
    by (induction kvs) (auto split: if_splits)
  from 3 have "key \<in> fst ` set kvs"
    by simp
  then obtain v where "map_of kvs key = Some v"
    by (metis domD dom_map_of_conv_image_fst)
  then show ?case
    using smaller [of key v] by (simp add: lookup_def)
qed

text \<open>
  \<open>sha256\<close>: a string is hashed as it is, any other value through its canonical
  encoding. The digest itself (\<open>createHash('sha256')\<close> of the runtime, rendered in hex)
  is the parameter \<open>H\<close>. A value whose encoding is \<open>undefined\<close> makes \<open>hash.update\<close>
  raise a \<open>TypeError\<close>.
\<close>

fun sha256 :: "(string \<Rightarrow> string) \<Rightarrow> (rat \<Rightarrow> string) \<Rightarrow> jsval \<Rightarrow> error + string" where
  "sha256 H nf (Prim (PStr s)) = Inr (H s)"
| "sha256 H nf v =
     (case canonicalizeJSON nf v of None \<Rightarrow> Inl TypeError | Some s \<Rightarrow> Inr (H s))"

section \<open>The data model\<close>

text \<open>
  The entities are the object literals built by the factories of \<open>models/index.js\<close>.
  A property that holds \<open>null\<close> or is missing is \<open>None\<close>. Where two entities have a
  property of the same name, the event's is written with the prefix \<open>ev_\<close>
  (\<open>ev_batchId\<close>, \<open>ev_quantity\<close>, \<open>ev_notes\<close>); the property \<open>notes\<close> of a batch
  is \<open>b_notes\<close>, the properties \<open>value\<close> and \<open>unit\<close> of an assay are \<open>assayValue\<close> and
  \<open>assayUnit\<close>.
\<close>

datatype BatchStatus = CREATED | IN_TRANSIT | RECEIVED | CLOSED | BS_DISPUTE

datatype EventType =
  CREATE | TRANSFER | SHIP | RECEIVE | INSPECT_TEST | ASSAY_FINALIZED | DISPUTE | RESOLVE

fun EventType_text :: "EventType \<Rightarrow> string" where
  "EventType_text CREATE = ''Create''"
| "EventType_text TRANSFER = ''Transfer''"
| "EventType_text SHIP = ''Ship''"
| "EventType_text RECEIVE = ''Receive''"
| "EventType_text INSPECT_TEST = ''InspectTest''"
| "EventType_text ASSAY_FINALIZED = ''AssayFinalized''"
| "EventType_text DISPUTE = ''Dispute''"
| "EventType_text RESOLVE = ''Resolve''"

record quantity =
  weight :: jsnumber
  unit :: string

record assay =
  assayValue :: jsnumber
  assayUnit :: "string option"

record batch =
  batchId :: string
  externalReferenceNumber :: string
  commodityType :: string
  originFacilityId :: string
  ownerPartyId :: string
  creationTimestamp :: string
  quantity :: quantity
  declaredAssay :: "assay option"
  status :: BatchStatus
  parentBatchIds :: "string list"
  b_notes :: "string option"
  documentIds :: "string list"
  eventIds :: "string list"

record event =
  eventId :: string
  eventType :: EventType
  eventTimestamp :: string
  ev_batchId :: string
  fromPartyId :: "string option"
  toPartyId :: "string option"
  fromFacilityId :: "string option"
  toFacilityId :: "string option"
  ev_quantity :: "quantity option"
  references :: "string list"
  ev_notes :: "string option"
  eventPayloadHash :: "string option"
  onChainTxHash :: "string option"

record document =
  documentId :: string
  documentType :: string
  fileName :: string
  storageUri :: "string option"
  sha256Hash :: "string option"
  issuerPartyId :: "string option"
  issuedDate :: "string option"
  relatedBatchId :: "string option"
  relatedEventId :: "string option"
  confidentialityLevel :: string
  createdAt :: string

text \<open>
  \<open>createBatch\<close> and \<open>createEvent\<close>. The identifier from \<open>uuidv4()\<close> and the text of
  \<open>new Date().toISOString()\<close> are inputs. An argument that is not supplied is \<open>None\<close>
  and takes the default of the signature. The conditional on \<open>declaredAssayValue\<close> and
  on \<open>weight\<close> is the truth test of the language.
\<close>

definition createBatch ::
  "string \<Rightarrow> string \<Rightarrow> string \<Rightarrow> string \<Rightarrow> string \<Rightarrow> string \<Rightarrow> jsnumber \<Rightarrow> string option \<Rightarrow>
   jsnumber option \<Rightarrow> string option \<Rightarrow> string option \<Rightarrow> batch" where
  "createBatch uuid now externalReferenceNumber' commodityType' originFacilityId' ownerPartyId'
               weight' weightUnit declaredAssayValue declaredAssayUnit notes' =
     \<lparr> batchId = uuid,
       externalReferenceNumber = externalReferenceNumber',
       commodityType = commodityType',
       originFacilityId = originFacilityId',
       ownerPartyId = ownerPartyId',
       creationTimestamp = now,
       quantity = \<lparr> weight = weight',
                    unit = (case weightUnit of None \<Rightarrow> ''kg'' | Some u \<Rightarrow> u) \<rparr>,
       declaredAssay =
         (case declaredAssayValue of
            None \<Rightarrow> None
          | Some a \<Rightarrow> if truthy_num a
                     then Some \<lparr> assayValue = a, assayUnit = declaredAssayUnit \<rparr>
                     else None),
       status = CREATED,
       parentBatchIds = [],
       b_notes = notes',
       documentIds = [],
       eventIds = [] \<rparr>"

definition createEvent ::
  "string \<Rightarrow> string \<Rightarrow> EventType \<Rightarrow> string \<Rightarrow> string option \<Rightarrow> string option \<Rightarrow>
   string option \<Rightarrow> string option \<Rightarrow> jsnumber option \<Rightarrow> string option \<Rightarrow>
   string list option \<Rightarrow> string option \<Rightarrow> event" where
  "createEvent uuid now eventType' batchId' fromPartyId' toPartyId' fromFacilityId'
               toFacilityId' weight' weightUnit documentIds' notes' =
     \<lparr> eventId = uuid,
       eventType = eventType',
       eventTimestamp = now,
       ev_batchId = batchId',
       fromPartyId = fromPartyId',
       toPartyId = toPartyId',
       fromFacilityId = fromFacilityId',
       toFacilityId = toFacilityId',
       ev_quantity =
         (case weight' of
            None \<Rightarrow> None
          | Some w \<Rightarrow> if truthy_num w
                     then Some \<lparr> weight = w,
                                 unit = (case weightUnit of None \<Rightarrow> ''kg'' | Some u \<Rightarrow> u) \<rparr>
                     else None),
       references = (case documentIds' of None \<Rightarrow> [] | Some ds \<Rightarrow> ds),
       ev_notes = notes',
       eventPayloadHash = None,
       onChainTxHash = None \<rparr>"

section \<open>The fingerprint payloads\<close>

text \<open>\<open>a || b\<close>, and the values of the optional properties.\<close>

definition js_or :: "jsval \<Rightarrow> jsval \<Rightarrow> jsval" where
  "js_or a b = (if truthy a then a else b)"

definition of_string_opt :: "string option \<Rightarrow> jsval" where
  "of_string_opt x = (case x of None \<Rightarrow> Prim PNull | Some s \<Rightarrow> Prim (PStr s))"

definition of_quantity :: "quantity \<Rightarrow> jsval" where
  "of_quantity q = JObj [(''weight'', Prim (PNum (weight q))), (''unit'', Prim (PStr (unit q)))]"

definition of_quantity_opt :: "quantity option \<Rightarrow> jsval" where
  "of_quantity_opt x = (case x of None \<Rightarrow> Prim PNull | Some q \<Rightarrow> of_quantity q)"

definition of_assay_opt :: "assay option \<Rightarrow> jsval" where
  "of_assay_opt x =
     (case x of
        None \<Rightarrow> Prim PNull
      | Some a \<Rightarrow> JObj [(''value'', Prim (PNum (assayValue a))),
                        (''unit'', of_string_opt (assayUnit a))])"

definition of_references :: "string list \<Rightarrow> jsval" where
  "of_references ds = JArr (map (\<lambda>d. Prim (PStr d)) ds)"

text \<open>
  The object that \<open>computeEventHash\<close> hashes. The time stamp of the model is the ISO
  text already, the value the source reaches on both branches of its \<open>instanceof Date\<close>
  test.
\<close>

definition eventPayload :: "event \<Rightarrow> jsval" where
  "eventPayload e =
     JObj [(''eventId'', Prim (PStr (eventId e))),
           (''eventType'', Prim (PStr (EventType_text (eventType e)))),
           (''eventTimestamp'', Prim (PStr (eventTimestamp e))),
           (''batchId'', Prim (PStr (ev_batchId e))),
           (''fromPartyId'', js_or (of_string_opt (fromPartyId e)) (Prim PNull)),
           (''toPartyId'', js_or (of_string_opt (toPartyId e)) (Prim PNull)),
           (''fromFacilityId'', js_or (of_string_opt (fromFacilityId e)) (Prim PNull)),
           (''toFacilityId'', js_or (of_string_opt (toFacilityId e)) (Prim PNull)),
           (''quantity'', js_or (of_quantity_opt (ev_quantity e)) (Prim PNull)),
           (''references'', js_or (of_references (references e)) (JArr []))]"

definition computeEventHash :: "(string \<Rightarrow> string) \<Rightarrow> (rat \<Rightarrow> string) \<Rightarrow> event \<Rightarrow> error + string" where
  "computeEventHash H nf e = sha256 H nf (eventPayload e)"

definition batchPayload :: "batch \<Rightarrow> jsval" where
  "batchPayload b =
     JObj [(''batchId'', Prim (PStr (batchId b))),
           (''externalReferenceNumber'', Prim (PStr (externalReferenceNumber b))),
           (''commodityType'', Prim (PStr (commodityType b))),
           (''originFacilityId'', Prim (PStr (originFacilityId b))),
           (''ownerPartyId'', Prim (PStr (ownerPartyId b))),
           (''creationTimestamp'', Prim (PStr (creationTimestamp b))),
           (''quantity'', of_quantity (quantity b)),
           (''declaredAssay'', js_or (of_assay_opt (declaredAssay b)) (Prim PNull))]"

definition computeBatchHash :: "(string \<Rightarrow> string) \<Rightarrow> (rat \<Rightarrow> string) \<Rightarrow> batch \<Rightarrow> error + string" where
  "computeBatchHash H nf b = sha256 H nf (batchPayload b)"

text \<open>\<open>hashDocument\<close> and \<open>verifyDocumentHash\<close>; the content of a document is a string.\<close>

definition hashDocument :: "(string \<Rightarrow> string) \<Rightarrow> (rat \<Rightarrow> string) \<Rightarrow> string \<Rightarrow> error + string" where
  "hashDocument H nf content = sha256 H nf (Prim (PStr content))"

record documentHashCheck =
  isValid :: bool
  computedHash :: string
  storedHash :: "string option"

definition verifyDocumentHash ::
  "(string \<Rightarrow> string) \<Rightarrow> (rat \<Rightarrow> string) \<Rightarrow> string \<Rightarrow> string option \<Rightarrow> error + documentHashCheck" where
  "verifyDocumentHash H nf content stored =
     (case hashDocument H nf content of
        Inl err \<Rightarrow> Inl err
      | Inr computed \<Rightarrow>
          Inr \<lparr> isValid = (Some computed = stored),
                computedHash = computed,
                storedHash = stored \<rparr>)"

section \<open>The in-memory store\<close>

text \<open>
  \<open>database.js\<close>: each collection is a \<open>Map\<close> from the identifier to the entity, in
  insertion order; \<open>Map.prototype.set\<close> replaces the value of a key that is there and
  adds a new key at the end. Every write adds an entry to the audit trail (its time stamp
  and its summary of the data are left out of the entry). The collections of parties,
  facilities, credentials and users are not part of the model.
\<close>

fun map_set :: "'k \<Rightarrow> 'v \<Rightarrow> ('k \<times> 'v) list \<Rightarrow> ('k \<times> 'v) list" where
  "map_set k v [] = [(k, v)]"
| "map_set k v (p # ps) = (if fst p = k then (k, v) # ps else p # map_set k v ps)"

record auditEntry =
  action :: string
  entityType :: string
  entityId :: string
  userId :: string

record database =
  batches :: "(string \<times> batch) list"
  events :: "(string \<times> event) list"
  documents :: "(string \<times> document) list"
  auditLog :: "auditEntry list"

definition logAction :: "database \<Rightarrow> string \<Rightarrow> string \<Rightarrow> string \<Rightarrow> database" where
  "logAction d act ety eid =
     d\<lparr>auditLog := auditLog d @
        [\<lparr> action = act, entityType = ety, entityId = eid, userId = ''system'' \<rparr>]\<rparr>"

definition saveBatch :: "database \<Rightarrow> batch \<Rightarrow> database" where
  "saveBatch d b =
     logAction (d\<lparr>batches := map_set (batchId b) b (batches d)\<rparr>) ''CREATE'' ''Batch'' (batchId b)"

definition updateBatch :: "database \<Rightarrow> batch \<Rightarrow> database" where
  "updateBatch d b =
     logAction (d\<lparr>batches := map_set (batchId b) b (batches d)\<rparr>) ''UPDATE'' ''Batch'' (batchId b)"

definition getBatch :: "database \<Rightarrow> string \<Rightarrow> batch option" where
  "getBatch d bid = map_of (batches d) bid"

definition saveEvent :: "database \<Rightarrow> event \<Rightarrow> database" where
  "saveEvent d e =
     logAction (d\<lparr>events := map_set (eventId e) e (events d)\<rparr>) ''CREATE'' ''Event'' (eventId e)"

definition getEvent :: "database \<Rightarrow> string \<Rightarrow> event option" where
  "getEvent d eid = map_of (events d) eid"

definition getAllEvents :: "database \<Rightarrow> event list" where
  "getAllEvents d = map snd (events d)"

text \<open>
  \<open>getEventsByBatch\<close>: the events of the batch, sorted by the numeric difference of
  their dates. \<open>ms\<close> is the number of milliseconds that \<open>new Date(text)\<close> stands for; the
  sort of the language is stable, as \<open>sort_key\<close> is.
\<close>

definition getEventsByBatch :: "(string \<Rightarrow> int) \<Rightarrow> database \<Rightarrow> string \<Rightarrow> event list" where
  "getEventsByBatch ms d bid =
     sort_key (\<lambda>e. ms (eventTimestamp e)) (filter (\<lambda>e. ev_batchId e = bid) (getAllEvents d))"

definition saveDocument :: "database \<Rightarrow> document \<Rightarrow> database" where
  "saveDocument d doc =
     logAction (d\<lparr>documents := map_set (documentId doc) doc (documents d)\<rparr>)
       ''CREATE'' ''Document'' (documentId doc)"

definition getDocument :: "database \<Rightarrow> string \<Rightarrow> document option" where
  "getDocument d did = map_of (documents d) did"

section \<open>The anchoring service\<close>

text \<open>
  \<open>anchoring.js\<close>. In simulation mode the service invents a transaction hash and keeps
  the record; otherwise it sends the hash to the contract. What the outside gives to one
  operation is the record \<open>inputs\<close>: the identifier of \<open>uuidv4()\<close>, the text of the clock,
  the random hexadecimal digits of the simulated transaction hash, and the hash of the
  receipt of the contract call (\<open>None\<close> when the call raises, which the service catches).
  The properties \<open>id\<close> and \<open>hash\<close> of an anchor record are \<open>anchorId\<close> and
  \<open>anchorHash_of\<close>; its time stamp, block number and explorer address are left out.
\<close>

record inputs =
  uuid :: string
  now :: string
  fakeTxHash :: string
  chainReceipt :: "string option"

record anchorRecord =
  anchorId :: string
  anchorHash_of :: string
  txHash :: "string option"
  simulated :: bool

datatype anchorOutcome = Anchored anchorRecord | AnchorFailed

record anchoringService =
  simulationMode :: bool
  simulatedTransactions :: "anchorRecord list"

text \<open>\<open>anchor.txHash\<close> of the object the service returns.\<close>

fun outcome_txHash :: "anchorOutcome \<Rightarrow> string option" where
  "outcome_txHash (Anchored r) = txHash r"
| "outcome_txHash AnchorFailed = None"

definition anchorHash ::
  "anchoringService \<Rightarrow> inputs \<Rightarrow> string \<Rightarrow> string \<Rightarrow> anchorOutcome \<times> anchoringService" where
  "anchorHash svc inp aid h =
     (if simulationMode svc then
        (let r = \<lparr> anchorId = aid, anchorHash_of = h,
                    txHash = Some (''0x'' @ fakeTxHash inp), simulated = True \<rparr>
         in (Anchored r, svc\<lparr>simulatedTransactions := simulatedTransactions svc @ [r]\<rparr>))
      else
        (case chainReceipt inp of
           Some rh \<Rightarrow> (Anchored \<lparr> anchorId = aid, anchorHash_of = h,
                                   txHash = Some rh, simulated = False \<rparr>, svc)
         | None \<Rightarrow> (AnchorFailed, svc)))"

definition anchorBatch ::
  "anchoringService \<Rightarrow> inputs \<Rightarrow> string \<Rightarrow> string \<Rightarrow> anchorOutcome \<times> anchoringService" where
  "anchorBatch svc inp bid h = anchorHash svc inp (''batch:'' @ bid) h"

definition anchorEvent ::
  "anchoringService \<Rightarrow> inputs \<Rightarrow> string \<Rightarrow> string \<Rightarrow> anchorOutcome \<times> anchoringService" where
  "anchorEvent svc inp eid h = anchorHash svc inp (''event:'' @ eid) h"

text \<open>
  \<open>verifyAnchor\<close>: the simulation looks the hash up in its own records; otherwise the
  answer is whether the provider has a receipt (\<open>hasReceipt\<close>, false when the provider
  raises).
\<close>

definition verifyAnchor :: "(string \<Rightarrow> bool) \<Rightarrow> anchoringService \<Rightarrow> string \<Rightarrow> bool" where
  "verifyAnchor hasReceipt svc tx =
     (if simulationMode svc
      then find (\<lambda>t. txHash t = Some tx) (simulatedTransactions svc) \<noteq> None
      else hasReceipt tx)"

section \<open>The provenance service\<close>

text \<open>
  The service works on two singletons, the store and the anchoring service; the model
  passes both as one state. \<open>a || b\<close> on the optional arguments of a request: a string
  counts when it is there and not empty, a number when it is there and neither zero nor
  \<open>NaN\<close>, a list whenever it is there.
\<close>

record world =
  db :: database
  anchoring :: anchoringService

definition string_or :: "string option \<Rightarrow> string \<Rightarrow> string" where
  "string_or x dflt = (case x of None \<Rightarrow> dflt | Some s \<Rightarrow> if s \<noteq> [] then s else dflt)"

definition number_or :: "jsnumber option \<Rightarrow> jsnumber \<Rightarrow> jsnumber" where
  "number_or x dflt = (case x of None \<Rightarrow> dflt | Some n \<Rightarrow> if truthy_num n then n else dflt)"

definition list_or :: "'a list option \<Rightarrow> 'a list \<Rightarrow> 'a list" where
  "list_or x dflt = (case x of None \<Rightarrow> dflt | Some xs \<Rightarrow> xs)"

subsection \<open>Documents\<close>

record documentData =
  dd_content :: "string option"
  dd_sha256Hash :: "string option"
  dd_documentType :: string
  dd_fileName :: string
  dd_storageUri :: "string option"
  dd_issuerPartyId :: "string option"
  dd_issuedDate :: "string option"
  dd_relatedBatchId :: "string option"
  dd_relatedEventId :: "string option"
  dd_confidentialityLevel :: "string option"

definition createDocument :: "string \<Rightarrow> string \<Rightarrow> documentData \<Rightarrow> document" where
  "createDocument uuid' now' dd =
     \<lparr> documentId = uuid',
       documentType = dd_documentType dd,
       fileName = dd_fileName dd,
       storageUri = dd_storageUri dd,
       sha256Hash = dd_sha256Hash dd,
       issuerPartyId = dd_issuerPartyId dd,
       issuedDate = dd_issuedDate dd,
       relatedBatchId = dd_relatedBatchId dd,
       relatedEventId = dd_relatedEventId dd,
       confidentialityLevel =
         (case dd_confidentialityLevel dd of None \<Rightarrow> ''Restricted'' | Some l \<Rightarrow> l),
       createdAt = now' \<rparr>"

text \<open>
  \<open>registerDocument\<close> hashes the content when a content is given and no hash is, and
  deletes the content from the request object. It returns the stored document; the model
  also returns the request object as the call leaves it.
\<close>

definition registerDocument ::
  "(string \<Rightarrow> string) \<Rightarrow> (rat \<Rightarrow> string) \<Rightarrow> inputs \<Rightarrow> world \<Rightarrow> documentData \<Rightarrow>
   error + (document \<times> documentData \<times> world)" where
  "registerDocument H nf inp w dd =
     (case (case dd_content dd of
              None \<Rightarrow> Inr dd
            | Some c \<Rightarrow>
                if truthy (Prim (PStr c)) \<and> \<not> truthy (of_string_opt (dd_sha256Hash dd))
                then (case hashDocument H nf c of
                        Inl err \<Rightarrow> Inl err
                      | Inr h \<Rightarrow> Inr (dd\<lparr>dd_sha256Hash := Some h, dd_content := None\<rparr>))
                else Inr dd) of
        Inl err \<Rightarrow> Inl err
      | Inr dd' \<Rightarrow>
          (let doc = createDocument (uuid inp) (now inp) dd'
           in Inr (doc, dd', w\<lparr>db := saveDocument (db w) doc\<rparr>)))"

datatype documentVerification =
    DocumentNotFound
  | DocumentChecked bool string string string "string option"

text \<open>The property \<open>valid\<close> of the object that \<open>verifyDocument\<close> returns.\<close>

fun valid :: "documentVerification \<Rightarrow> bool" where
  "valid DocumentNotFound = False"
| "valid (DocumentChecked v did fname computed stored) = v"

definition verifyDocument ::
  "(string \<Rightarrow> string) \<Rightarrow> (rat \<Rightarrow> string) \<Rightarrow> world \<Rightarrow> string \<Rightarrow> string \<Rightarrow>
   error + documentVerification" where
  "verifyDocument H nf w did content =
     (case getDocument (db w) did of
        None \<Rightarrow> Inr DocumentNotFound
      | Some doc \<Rightarrow>
          (case verifyDocumentHash H nf content (sha256Hash doc) of
             Inl err \<Rightarrow> Inl err
           | Inr r \<Rightarrow> Inr (DocumentChecked (isValid r) did (fileName doc)
                             (computedHash r) (storedHash r))))"

subsection \<open>Recording events\<close>

record operationResult =
  res_event :: event
  res_anchor :: anchorOutcome
  res_batch :: batch

text \<open>
  The lines that \<open>recordShipment\<close> and \<open>recordReceipt\<close> (and the other recording
  operations of the source) repeat after building their event: hash the event, anchor the
  hash, attach the transaction reference, change the batch, list the event in it, write
  the batch and the event. \<open>change\<close> is what the operation assigns to the batch. The
  operations read the batch by its identifier and throw when there is none; they make no
  other test.
\<close>

definition hashAnchorStore ::
  "(string \<Rightarrow> string) \<Rightarrow> (rat \<Rightarrow> string) \<Rightarrow> inputs \<Rightarrow> world \<Rightarrow> batch \<Rightarrow> (batch \<Rightarrow> batch) \<Rightarrow>
   event \<Rightarrow> error + (operationResult \<times> world)" where
  "hashAnchorStore H nf inp w b change ev =
     (case computeEventHash H nf ev of
        Inl err \<Rightarrow> Inl err
      | Inr h \<Rightarrow>
          (let ev1 = ev\<lparr>eventPayloadHash := Some h\<rparr>;
               (anchor, svc) = anchorEvent (anchoring w) inp (eventId ev1) h;
               ev2 = ev1\<lparr>onChainTxHash := outcome_txHash anchor\<rparr>;
               b1 = change b;
               b2 = b1\<lparr>eventIds := eventIds b1 @ [eventId ev2]\<rparr>
           in Inr (\<lparr> res_event = ev2, res_anchor = anchor, res_batch = b2 \<rparr>,
                   \<lparr> db = saveEvent (updateBatch (db w) b2) ev2, anchoring = svc \<rparr>)))"

record shipmentData =
  ship_toPartyId :: "string option"
  ship_fromFacilityId :: "string option"
  ship_toFacilityId :: "string option"
  ship_documentIds :: "string list option"
  ship_notes :: "string option"

definition recordShipment ::
  "(string \<Rightarrow> string) \<Rightarrow> (rat \<Rightarrow> string) \<Rightarrow> inputs \<Rightarrow> world \<Rightarrow> string \<Rightarrow> shipmentData \<Rightarrow>
   error + (operationResult \<times> world)" where
  "recordShipment H nf inp w bid sd =
     (case getBatch (db w) bid of
        None \<Rightarrow> Inl (BatchNotFound bid)
      | Some b \<Rightarrow>
          hashAnchorStore H nf inp w b (\<lambda>b. b\<lparr>status := IN_TRANSIT\<rparr>)
            (createEvent (uuid inp) (now inp) SHIP bid
               (Some (ownerPartyId b))
               (ship_toPartyId sd)
               (Some (string_or (ship_fromFacilityId sd) (originFacilityId b)))
               (ship_toFacilityId sd)
               (Some (weight (quantity b)))
               (Some (unit (quantity b)))
               (Some (list_or (ship_documentIds sd) []))
               (Some (string_or (ship_notes sd) ''Shipment dispatched''))))"

record receiptData =
  rcpt_receiverPartyId :: string
  rcpt_facilityId :: "string option"
  rcpt_receivedWeight :: "jsnumber option"
  rcpt_documentIds :: "string list option"
  rcpt_notes :: "string option"

definition recordReceipt ::
  "(string \<Rightarrow> string) \<Rightarrow> (rat \<Rightarrow> string) \<Rightarrow> inputs \<Rightarrow> world \<Rightarrow> string \<Rightarrow> receiptData \<Rightarrow>
   error + (operationResult \<times> world)" where
  "recordReceipt H nf inp w bid rd =
     (case getBatch (db w) bid of
        None \<Rightarrow> Inl (BatchNotFound bid)
      | Some b \<Rightarrow>
          hashAnchorStore H nf inp w b
            (\<lambda>b. b\<lparr>status := RECEIVED, ownerPartyId := rcpt_receiverPartyId rd\<rparr>)
            (createEvent (uuid inp) (now inp) RECEIVE bid
               (Some (ownerPartyId b))
               (Some (rcpt_receiverPartyId rd))
               None
               (rcpt_facilityId rd)
               (Some (number_or (rcpt_receivedWeight rd) (weight (quantity b))))
               (Some (unit (quantity b)))
               (Some (list_or (rcpt_documentIds rd) []))
               (Some (string_or (rcpt_notes rd) ''Shipment received and acknowledged''))))"

subsection \<open>Creating a batch\<close>

record batchData =
  bd_externalReferenceNumber :: string
  bd_commodityType :: string
  bd_originFacilityId :: string
  bd_ownerPartyId :: string
  bd_weight :: jsnumber
  bd_weightUnit :: "string option"
  bd_declaredAssayValue :: "jsnumber option"
  bd_declaredAssayUnit :: "string option"
  bd_notes :: "string option"

record creationResult =
  cr_batch :: batch
  cr_event :: event
  cr_batchAnchor :: anchorOutcome
  cr_eventAnchor :: anchorOutcome

text \<open>A stored entity changed in place: the value under the key, when there is one.\<close>

fun map_modify :: "'k \<Rightarrow> ('v \<Rightarrow> 'v) \<Rightarrow> ('k \<times> 'v) list \<Rightarrow> ('k \<times> 'v) list" where
  "map_modify k f [] = []"
| "map_modify k f (p # ps) = (if fst p = k then (k, f (snd p)) # ps else p # map_modify k f ps)"

fun linkDocuments :: "database \<Rightarrow> string list \<Rightarrow> string \<Rightarrow> string \<Rightarrow> database" where
  "linkDocuments d [] bid eid = d"
| "linkDocuments d (docId # rest) bid eid =
     linkDocuments
       (d\<lparr>documents :=
            map_modify docId (\<lambda>doc. doc\<lparr>relatedBatchId := Some bid, relatedEventId := Some eid\<rparr>)
              (documents d)\<rparr>)
       rest bid eid"

text \<open>
  \<open>createBatchAtMine\<close>. \<open>inpB\<close> is what the outside gives to the batch (identifier, clock,
  anchor of the batch hash), \<open>inpE\<close> what it gives to the first event. The batch hash
  goes to the anchoring service only: the stored batch keeps no hash.
\<close>

definition createBatchAtMine ::
  "(string \<Rightarrow> string) \<Rightarrow> (rat \<Rightarrow> string) \<Rightarrow> inputs \<Rightarrow> inputs \<Rightarrow> world \<Rightarrow> batchData \<Rightarrow>
   string list \<Rightarrow> error + (creationResult \<times> world)" where
  "createBatchAtMine H nf inpB inpE w bd docIds =
     (let b0 = createBatch (uuid inpB) (now inpB) (bd_externalReferenceNumber bd)
                 (bd_commodityType bd) (bd_originFacilityId bd) (bd_ownerPartyId bd)
                 (bd_weight bd) (bd_weightUnit bd) (bd_declaredAssayValue bd)
                 (bd_declaredAssayUnit bd) (bd_notes bd);
          b1 = b0\<lparr>documentIds := docIds\<rparr>;
          ev = createEvent (uuid inpE) (now inpE) CREATE (batchId b1)
                 None
                 (Some (ownerPartyId b1))
                 None
                 (Some (originFacilityId b1))
                 (Some (weight (quantity b1)))
                 (Some (unit (quantity b1)))
                 (Some docIds)
                 (Some ''Batch created at origin facility'')
      in case computeEventHash H nf ev of
           Inl err \<Rightarrow> Inl err
         | Inr h \<Rightarrow>
             (case computeBatchHash H nf b1 of
                Inl err \<Rightarrow> Inl err
              | Inr batchHash \<Rightarrow>
                  (let ev1 = ev\<lparr>eventPayloadHash := Some h\<rparr>;
                       (batchAnchor, svc1) = anchorBatch (anchoring w) inpB (batchId b1) batchHash;
                       (eventAnchor, svc2) = anchorEvent svc1 inpE (eventId ev1) h;
                       ev2 = ev1\<lparr>onChainTxHash := outcome_txHash eventAnchor\<rparr>;
                       b2 = b1\<lparr>eventIds := eventIds b1 @ [eventId ev2]\<rparr>;
                       d1 = saveEvent (saveBatch (db w) b2) ev2;
                       d2 = linkDocuments d1 docIds (batchId b2) (eventId ev2)
                   in Inr (\<lparr> cr_batch = b2, cr_event = ev2,
                              cr_batchAnchor = batchAnchor, cr_eventAnchor = eventAnchor \<rparr>,
                           \<lparr> db = d2, anchoring = svc2 \<rparr>))))"

subsection \<open>Verification\<close>

text \<open>
  The result of \<open>verifyBatchIntegrity\<close>. The properties \<open>eventId\<close>, \<open>eventType\<close>,
  \<open>storedHash\<close> and \<open>computedHash\<close> of the report on an event have the prefix \<open>ver_\<close>,
  as have \<open>batchId\<close> and \<open>events\<close> of the result; \<open>eventId\<close> and \<open>txHash\<close> of an anchor
  report have the prefix \<open>av_\<close>. A batch that is not stored gives the object
  \<open>{valid: false, error: 'Batch not found'}\<close>, here \<open>BatchMissing\<close>.
\<close>

record eventVerification =
  ver_eventId :: string
  ver_eventType :: EventType
  ver_storedHash :: "string option"
  ver_computedHash :: string
  hashMatch :: bool
  anchorValid :: "bool option"

record anchorVerification =
  av_eventId :: string
  av_txHash :: string
  verified :: bool

record verificationResults =
  ver_batchId :: string
  overallValid :: bool
  batchHashValid :: bool
  ver_events :: "eventVerification list"
  anchorVerifications :: "anchorVerification list"

datatype verification = BatchMissing | Results verificationResults

text \<open>
  One iteration of the loop of \<open>verifyBatchIntegrity\<close>, changing the result object: the
  event's hash is recomputed and compared with the stored one; an event with a
  transaction reference has its anchor checked and reported; a hash that does not match
  sets \<open>overallValid\<close> to false.
\<close>

definition verifyEvent ::
  "(string \<Rightarrow> string) \<Rightarrow> (rat \<Rightarrow> string) \<Rightarrow> (string \<Rightarrow> bool) \<Rightarrow> anchoringService \<Rightarrow>
   event \<Rightarrow> verificationResults \<Rightarrow> error + verificationResults" where
  "verifyEvent H nf hasReceipt svc ev r =
     (case computeEventHash H nf ev of
        Inl err \<Rightarrow> Inl err
      | Inr computed \<Rightarrow>
          (let match = (Some computed = eventPayloadHash ev);
               anchorCheck =
                 (case onChainTxHash ev of
                    None \<Rightarrow> None
                  | Some tx \<Rightarrow> if truthy (Prim (PStr tx))
                               then Some (tx, verifyAnchor hasReceipt svc tx)
                               else None);
               anchorOk = map_option snd anchorCheck;
               r1 = (case anchorCheck of
                       None \<Rightarrow> r
                     | Some (tx, ok) \<Rightarrow>
                         r\<lparr>anchorVerifications := anchorVerifications r @
                           [\<lparr> av_eventId = eventId ev, av_txHash = tx, verified = ok \<rparr>]\<rparr>);
               r2 = r1\<lparr>ver_events := ver_events r1 @
                          [\<lparr> ver_eventId = eventId ev,
                             ver_eventType = eventType ev,
                             ver_storedHash = eventPayloadHash ev,
                             ver_computedHash = computed,
                             hashMatch = match,
                             anchorValid = anchorOk \<rparr>]\<rparr>
           in Inr (if \<not> match then r2\<lparr>overallValid := False\<rparr> else r2)))"

text \<open>The loop over the events of the batch, in their order.\<close>

fun verifyEvents ::
  "(string \<Rightarrow> string) \<Rightarrow> (rat \<Rightarrow> string) \<Rightarrow> (string \<Rightarrow> bool) \<Rightarrow> anchoringService \<Rightarrow>
   event list \<Rightarrow> verificationResults \<Rightarrow> error + verificationResults" where
  "verifyEvents H nf hasReceipt svc [] r = Inr r"
| "verifyEvents H nf hasReceipt svc (ev # rest) r =
     (case verifyEvent H nf hasReceipt svc ev r of
        Inl err \<Rightarrow> Inl err
      | Inr r' \<Rightarrow> verifyEvents H nf hasReceipt svc rest r')"

text \<open>
  \<open>verifyBatchIntegrity\<close>. The batch hash is computed and then not used: nothing is
  compared with it, and \<open>batchHashValid\<close> keeps the value \<open>true\<close> it starts with.
\<close>

definition verifyBatchIntegrity ::
  "(string \<Rightarrow> string) \<Rightarrow> (rat \<Rightarrow> string) \<Rightarrow> (string \<Rightarrow> int) \<Rightarrow> (string \<Rightarrow> bool) \<Rightarrow> world \<Rightarrow>
   string \<Rightarrow> error + verification" where
  "verifyBatchIntegrity H nf ms hasReceipt w bid =
     (case getBatch (db w) bid of
        None \<Rightarrow> Inr BatchMissing
      | Some b \<Rightarrow>
          (let evs = getEventsByBatch ms (db w) bid;
               r0 = \<lparr> ver_batchId = bid, overallValid = True, batchHashValid = True,
                      ver_events = [], anchorVerifications = [] \<rparr>
           in case computeBatchHash H nf b of
                Inl err \<Rightarrow> Inl err
              | Inr computedBatchHash \<Rightarrow>
                  (case verifyEvents H nf hasReceipt (anchoring w) evs r0 of
                     Inl err \<Rightarrow> Inl err
                   | Inr r \<Rightarrow> Inr (Results r))))"

section \<open>Notions used in the statements\<close>


fun property :: "jsval \<Rightarrow> string \<Rightarrow> jsval" where
  "property (JObj kvs) k = lookup kvs k"
| "property v k = Prim PUndefined"

text \<open>
  \<open>key_perm v v'\<close>: \<open>v'\<close> is \<open>v\<close> with the keys of its objects, at any depth, inserted in
  another order. Two objects are so related when they have the same keys, each once, and
  the values under each key are so related; arrays keep the order of their items.
\<close>

inductive key_perm :: "jsval \<Rightarrow> jsval \<Rightarrow> bool" where
  prim: "key_perm (Prim p) (Prim p)"
| arr: "list_all2 key_perm xs ys \<Longrightarrow> key_perm (JArr xs) (JArr ys)"
| obj: "distinct (map fst kvs) \<Longrightarrow> mset (map fst kvs') = mset (map fst kvs) \<Longrightarrow>
        (\<forall>k \<in> set (map fst kvs). key_perm (lookup kvs k) (lookup kvs' k)) \<Longrightarrow>
        key_perm (JObj kvs) (JObj kvs')"

text \<open>The hash recomputed from a stored event equals the hash stored with it.\<close>

definition fingerprintMatches :: "(string \<Rightarrow> string) \<Rightarrow> (rat \<Rightarrow> string) \<Rightarrow> event \<Rightarrow> bool" where
  "fingerprintMatches H nf ev =
     (case eventPayloadHash ev of
        None \<Rightarrow> False
      | Some stored \<Rightarrow> computeEventHash H nf ev = Inr stored)"

text \<open>
  The canonical text of an event payload and of a batch payload, written out: the keys
  in their sorted order, each optional property as its quoted text or as \<open>null\<close>.
\<close>

definition id_text :: "string option \<Rightarrow> string" where
  "id_text x =
     (case x of None \<Rightarrow> ''null'' | Some s \<Rightarrow> if s = [] then ''null'' else quote_string s)"

definition number_text :: "(rat \<Rightarrow> string) \<Rightarrow> jsnumber \<Rightarrow> string" where
  "number_text nf n = (case n of Finite q \<Rightarrow> nf q | _ \<Rightarrow> ''null'')"

definition quantity_text :: "(rat \<Rightarrow> string) \<Rightarrow> quantity \<Rightarrow> string" where
  "quantity_text nf q =
     ''{'' @ quote_string ''unit'' @ '':'' @ quote_string (unit q) @ '','' @
     quote_string ''weight'' @ '':'' @ number_text nf (weight q) @ ''}''"

definition quantity_opt_text :: "(rat \<Rightarrow> string) \<Rightarrow> quantity option \<Rightarrow> string" where
  "quantity_opt_text nf x = (case x of None \<Rightarrow> ''null'' | Some q \<Rightarrow> quantity_text nf q)"

definition references_text :: "string list \<Rightarrow> string" where
  "references_text ds = ''['' @ join '','' (map quote_string ds) @ '']''"

definition event_text :: "(rat \<Rightarrow> string) \<Rightarrow> event \<Rightarrow> string" where
  "event_text nf e =
     ''{'' @ join '',''
       [quote_string ''batchId'' @ '':'' @ quote_string (ev_batchId e),
        quote_string ''eventId'' @ '':'' @ quote_string (eventId e),
        quote_string ''eventTimestamp'' @ '':'' @ quote_string (eventTimestamp e),
        quote_string ''eventType'' @ '':'' @ quote_string (EventType_text (eventType e)),
        quote_string ''fromFacilityId'' @ '':'' @ id_text (fromFacilityId e),
        quote_string ''fromPartyId'' @ '':'' @ id_text (fromPartyId e),
        quote_string ''quantity'' @ '':'' @ quantity_opt_text nf (ev_quantity e),
        quote_string ''references'' @ '':'' @ references_text (references e),
        quote_string ''toFacilityId'' @ '':'' @ id_text (toFacilityId e),
        quote_string ''toPartyId'' @ '':'' @ id_text (toPartyId e)] @ ''}''"

definition assay_opt_text :: "(rat \<Rightarrow> string) \<Rightarrow> assay option \<Rightarrow> string" where
  "assay_opt_text nf x =
     (case x of
        None \<Rightarrow> ''null''
      | Some a \<Rightarrow>
          ''{'' @ quote_string ''unit'' @ '':'' @
          (case assayUnit a of None \<Rightarrow> ''null'' | Some u \<Rightarrow> quote_string u) @ '','' @
          quote_string ''value'' @ '':'' @ number_text nf (assayValue a) @ ''}'')"

definition batch_text :: "(rat \<Rightarrow> string) \<Rightarrow> batch \<Rightarrow> string" where
  "batch_text nf b =
     ''{'' @ join '',''
       [quote_string ''batchId'' @ '':'' @ quote_string (batchId b),
        quote_string ''commodityType'' @ '':'' @ quote_string (commodityType b),
        quote_string ''creationTimestamp'' @ '':'' @ quote_string (creationTimestamp b),
        quote_string ''declaredAssay'' @ '':'' @ assay_opt_text nf (declaredAssay b),
        quote_string ''externalReferenceNumber'' @ '':'' @
          quote_string (externalReferenceNumber b),
        quote_string ''originFacilityId'' @ '':'' @ quote_string (originFacilityId b),
        quote_string ''ownerPartyId'' @ '':'' @ quote_string (ownerPartyId b),
        quote_string ''quantity'' @ '':'' @ quantity_text nf (quantity b)] @ ''}''"

section \<open>Sample data\<close>

text \<open>
  Concrete values on which the definitions are run. The digest and the number text are
  parameters of the model; on the samples a four-digit checksum stands for the digest
  and the decimal text of an integer for the number text. \<open>sample_ms\<close> orders the sample
  time stamps as their dates do, and \<open>no_receipts\<close> is a provider that has no receipt.
\<close>

definition checksum_digest :: "string \<Rightarrow> string" where
  "checksum_digest s =
     (let n = sum_list (map of_char s) mod 65536
      in [hexdigit (n div 4096), hexdigit (n div 256), hexdigit (n div 16), hexdigit n])"

fun digits :: "nat \<Rightarrow> string" where
  "digits n = (if n < 10 then [hexdigit n] else digits (n div 10) @ [hexdigit (n mod 10)])"

declare digits.simps [simp del]

definition integer_text :: "rat \<Rightarrow> string" where
  "integer_text q = (if q < 0 then ''-'' else []) @ digits (nat \<lfloor>\<bar>q\<bar>\<rfloor>)"

definition sample_ms :: "string \<Rightarrow> int" where
  "sample_ms s = sum_list (map (\<lambda>c. int (of_char c)) s)"

definition no_receipts :: "string \<Rightarrow> bool" where
  "no_receipts tx = False"

definition empty_world :: world where
  "empty_world = \<lparr> db = \<lparr> batches = [], events = [], documents = [], auditLog = [] \<rparr>,
                   anchoring = \<lparr> simulationMode = True, simulatedTransactions = [] \<rparr> \<rparr>"

definition sample_batchData :: batchData where
  "sample_batchData =
     \<lparr> bd_externalReferenceNumber = ''REF-1'', bd_commodityType = ''Gold'',
       bd_originFacilityId = ''mine-1'', bd_ownerPartyId = ''party-1'',
       bd_weight = Finite 25, bd_weightUnit = None, bd_declaredAssayValue = None,
       bd_declaredAssayUnit = None, bd_notes = None \<rparr>"

definition inB :: inputs where
  "inB = \<lparr> uuid = ''batch-1'', now = ''2024-01-01T00:00:00.000Z'',
           fakeTxHash = ''b1'', chainReceipt = None \<rparr>"

definition inE1 :: inputs where
  "inE1 = \<lparr> uuid = ''event-1'', now = ''2024-01-01T00:00:00.001Z'',
            fakeTxHash = ''e1'', chainReceipt = None \<rparr>"

definition inE2 :: inputs where
  "inE2 = \<lparr> uuid = ''event-2'', now = ''2024-01-01T00:00:00.002Z'',
            fakeTxHash = ''e2'', chainReceipt = None \<rparr>"

definition inE3 :: inputs where
  "inE3 = \<lparr> uuid = ''event-3'', now = ''2024-01-01T00:00:00.003Z'',
            fakeTxHash = ''e3'', chainReceipt = None \<rparr>"

definition inD :: inputs where
  "inD = \<lparr> uuid = ''doc-1'', now = ''2024-01-01T00:00:00.004Z'',
           fakeTxHash = ''d1'', chainReceipt = None \<rparr>"

definition sample_shipment :: shipmentData where
  "sample_shipment =
     \<lparr> ship_toPartyId = Some ''party-2'', ship_fromFacilityId = None,
       ship_toFacilityId = Some ''refinery-1'', ship_documentIds = None, ship_notes = None \<rparr>"

definition sample_receipt :: receiptData where
  "sample_receipt =
     \<lparr> rcpt_receiverPartyId = ''party-2'', rcpt_facilityId = Some ''refinery-1'',
       rcpt_receivedWeight = None, rcpt_documentIds = None, rcpt_notes = None \<rparr>"

text \<open>
  The batch and its three events as the operations leave them when a batch is created
  with \<open>inB\<close> and \<open>inE1\<close>, shipped with \<open>inE2\<close> and received with \<open>inE3\<close>, and the
  world after each of the three operations.
\<close>

definition created_batch :: batch where
  "created_batch =
     \<lparr> batchId = ''batch-1'', externalReferenceNumber = ''REF-1'', commodityType = ''Gold'',
       originFacilityId = ''mine-1'', ownerPartyId = ''party-1'',
       creationTimestamp = ''2024-01-01T00:00:00.000Z'',
       quantity = \<lparr> weight = Finite 25, unit = ''kg'' \<rparr>, declaredAssay = None,
       status = CREATED, parentBatchIds = [], b_notes = None, documentIds = [],
       eventIds = [''event-1''] \<rparr>"

definition shipped_batch :: batch where
  "shipped_batch =
     created_batch\<lparr>status := IN_TRANSIT, eventIds := [''event-1'', ''event-2'']\<rparr>"

definition received_batch :: batch where
  "received_batch =
     created_batch\<lparr>status := RECEIVED, ownerPartyId := ''party-2'',
                    eventIds := [''event-1'', ''event-2'', ''event-3'']\<rparr>"

definition create_event :: event where
  "create_event =
     \<lparr> eventId = ''event-1'', eventType = CREATE,
       eventTimestamp = ''2024-01-01T00:00:00.001Z'', ev_batchId = ''batch-1'',
       fromPartyId = None, toPartyId = Some ''party-1'', fromFacilityId = None,
       toFacilityId = Some ''mine-1'',
       ev_quantity = Some \<lparr> weight = Finite 25, unit = ''kg'' \<rparr>, references = [],
       ev_notes = Some ''Batch created at origin facility'',
       eventPayloadHash = Some ''4eee'', onChainTxHash = Some ''0xe1'' \<rparr>"

definition ship_event :: event where
  "ship_event =
     \<lparr> eventId = ''event-2'', eventType = SHIP,
       eventTimestamp = ''2024-01-01T00:00:00.002Z'', ev_batchId = ''batch-1'',
       fromPartyId = Some ''party-1'', toPartyId = Some ''party-2'',
       fromFacilityId = Some ''mine-1'', toFacilityId = Some ''refinery-1'',
       ev_quantity = Some \<lparr> weight = Finite 25, unit = ''kg'' \<rparr>, references = [],
       ev_notes = Some ''Shipment dispatched'',
       eventPayloadHash = Some ''5193'', onChainTxHash = Some ''0xe2'' \<rparr>"

definition receive_event :: event where
  "receive_event =
     \<lparr> eventId = ''event-3'', eventType = RECEIVE,
       eventTimestamp = ''2024-01-01T00:00:00.003Z'', ev_batchId = ''batch-1'',
       fromPartyId = Some ''party-1'', toPartyId = Some ''party-2'',
       fromFacilityId = None, toFacilityId = Some ''refinery-1'',
       ev_quantity = Some \<lparr> weight = Finite 25, unit = ''kg'' \<rparr>, references = [],
       ev_notes = Some ''Shipment received and acknowledged'',
       eventPayloadHash = Some ''5234'', onChainTxHash = Some ''0xe3'' \<rparr>"

definition batch_anchor :: anchorRecord where
  "batch_anchor = \<lparr> anchorId = ''batch:batch-1'', anchorHash_of = ''4c7e'',
                    txHash = Some ''0xb1'', simulated = True \<rparr>"

definition create_anchor :: anchorRecord where
  "create_anchor = \<lparr> anchorId = ''event:event-1'', anchorHash_of = ''4eee'',
                     txHash = Some ''0xe1'', simulated = True \<rparr>"

definition ship_anchor :: anchorRecord where
  "ship_anchor = \<lparr> anchorId = ''event:event-2'', anchorHash_of = ''5193'',
                   txHash = Some ''0xe2'', simulated = True \<rparr>"

definition receive_anchor :: anchorRecord where
  "receive_anchor = \<lparr> anchorId = ''event:event-3'', anchorHash_of = ''5234'',
                      txHash = Some ''0xe3'', simulated = True \<rparr>"

definition audit :: "string \<Rightarrow> string \<Rightarrow> string \<Rightarrow> auditEntry" where
  "audit act ety eid = \<lparr> action = act, entityType = ety, entityId = eid, userId = ''system'' \<rparr>"

definition created_world :: world where
  "created_world =
     \<lparr> db = \<lparr> batches = [(''batch-1'', created_batch)],
              events = [(''event-1'', create_event)],
              documents = [],
              auditLog = [audit ''CREATE'' ''Batch'' ''batch-1'',
                          audit ''CREATE'' ''Event'' ''event-1''] \<rparr>,
       anchoring = \<lparr> simulationMode = True,
                     simulatedTransactions = [batch_anchor, create_anchor] \<rparr> \<rparr>"

definition shipped_world :: world where
  "shipped_world =
     \<lparr> db = \<lparr> batches = [(''batch-1'', shipped_batch)],
              events = [(''event-1'', create_event), (''event-2'', ship_event)],
              documents = [],
              auditLog = [audit ''CREATE'' ''Batch'' ''batch-1'',
                          audit ''CREATE'' ''Event'' ''event-1'',
                          audit ''UPDATE'' ''Batch'' ''batch-1'',
                          audit ''CREATE'' ''Event'' ''event-2''] \<rparr>,
       anchoring = \<lparr> simulationMode = True,
                     simulatedTransactions = [batch_anchor, create_anchor, ship_anchor] \<rparr> \<rparr>"

definition received_world :: world where
  "received_world =
     \<lparr> db = \<lparr> batches = [(''batch-1'', received_batch)],
              events = [(''event-1'', create_event), (''event-2'', ship_event),
                        (''event-3'', receive_event)],
              documents = [],
              auditLog = [audit ''CREATE'' ''Batch'' ''batch-1'',
                          audit ''CREATE'' ''Event'' ''event-1'',
                          audit ''UPDATE'' ''Batch'' ''batch-1'',
                          audit ''CREATE'' ''Event'' ''event-2'',
                          audit ''UPDATE'' ''Batch'' ''batch-1'',
                          audit ''CREATE'' ''Event'' ''event-3''] \<rparr>,
       anchoring = \<lparr> simulationMode = True,
                     simulatedTransactions =
                       [batch_anchor, create_anchor, ship_anchor, receive_anchor] \<rparr> \<rparr>"

text \<open>
  Storage corruption: the stored batch with another weight; the stored shipment event
  with another weight; and the world after the creation with the records of the anchoring
  service lost.
\<close>

definition tampered_batch :: batch where
  "tampered_batch = created_batch\<lparr>quantity := \<lparr> weight = Finite 20, unit = ''kg'' \<rparr>\<rparr>"

definition tampered_batch_world :: world where
  "tampered_batch_world =
     created_world\<lparr>db := (db created_world)\<lparr>batches := [(''batch-1'', tampered_batch)]\<rparr>\<rparr>"

definition tampered_ship_event :: event where
  "tampered_ship_event =
     ship_event\<lparr>ev_quantity := Some \<lparr> weight = Finite 20, unit = ''kg'' \<rparr>\<rparr>"


text \<open>The stored shipment event with the identifier of another batch in its property
  \<open>batchId\<close>; the batch still lists the event.\<close>

definition moved_ship_event :: event where
  "moved_ship_event = ship_event\<lparr>ev_batchId := ''batch-2''\<rparr>"


definition unanchored_world :: world where
  "unanchored_world =
     created_world\<lparr>anchoring := \<lparr> simulationMode = True, simulatedTransactions = [] \<rparr>\<rparr>"


definition nested_record :: jsval where
  "nested_record =
     JObj [(''b'', Prim (PNum (Finite 1))),
           (''a'', JArr [JObj [(''y'', Prim PNull), (''x'', Prim (PStr ''v''))]])]"

definition nested_record_reordered :: jsval where
  "nested_record_reordered =
     JObj [(''a'', JArr [JObj [(''x'', Prim (PStr ''v'')), (''y'', Prim PNull)]]),
           (''b'', Prim (PNum (Finite 1)))]"

definition sample_document :: documentData where
  "sample_document =
     \<lparr> dd_content = Some ''assay report'', dd_sha256Hash = None,
       dd_documentType = ''AssayReport'', dd_fileName = ''assay.pdf'',
       dd_storageUri = None, dd_issuerPartyId = None, dd_issuedDate = None,
       dd_relatedBatchId = None, dd_relatedEventId = None,
       dd_confidentialityLevel = None \<rparr>"

definition empty_document :: documentData where
  "empty_document = sample_document\<lparr>dd_content := Some []\<rparr>"

text \<open>The calls that the statements below look at.\<close>

definition receipt_on_created ::  "error + (operationResult \<times> world)" where
  "receipt_on_created =
     recordReceipt checksum_digest integer_text inE2 created_world ''batch-1'' sample_receipt"

definition registered_sample :: "error + (document \<times> documentData \<times> world)" where
  "registered_sample =
     registerDocument checksum_digest integer_text inD empty_world sample_document"

definition registered_empty :: "error + (document \<times> documentData \<times> world)" where
  "registered_empty =
     registerDocument checksum_digest integer_text inD empty_world empty_document"

section \<open>Properties of the encoder\<close>

lemma key_perm_undefined:
  "key_perm v v' \<Longrightarrow> (v = Prim PUndefined) = (v' = Prim PUndefined)"
  by (erule key_perm.cases) auto

lemma map_list_all2_eq:
  "list_all2 (\<lambda>x y. f x = f y) xs ys \<Longrightarrow> map f xs = map f ys"
  by (induction rule: list_all2_induct) auto

lemma key_perm_canonical:
  "key_perm v v' \<Longrightarrow> canonicalizeJSON nf v = canonicalizeJSON nf v'"
proof (induction rule: key_perm.induct)
  case (prim p)
  show ?case by simp
next
  case (arr xs ys)
  then have "list_all2 (\<lambda>x y. join_item (canonicalizeJSON nf x) = join_item (canonicalizeJSON nf y)) xs ys"
    by (auto elim!: list_all2_mono)
  then have "map (\<lambda>item. join_item (canonicalizeJSON nf item)) xs
           = map (\<lambda>item. join_item (canonicalizeJSON nf item)) ys"
    by (rule map_list_all2_eq)
  then show ?case by simp
next
  case (obj kvs kvs')
  have keys: "sort (map fst kvs') = sort (map fst kvs)"
    using obj(2) by (intro sort_key_eq_sort_key) auto
  have same: "\<And>k. k \<in> set (map fst kvs) \<Longrightarrow>
      canonicalizeJSON nf (lookup kvs k) = canonicalizeJSON nf (lookup kvs' k)
      \<and> (lookup kvs k \<noteq> Prim PUndefined) = (lookup kvs' k \<noteq> Prim PUndefined)"
    using obj(3) key_perm_undefined by blast
  have f: "filter (\<lambda>key. lookup kvs' key \<noteq> Prim PUndefined) (sort (map fst kvs))
         = filter (\<lambda>key. lookup kvs key \<noteq> Prim PUndefined) (sort (map fst kvs))"
    by (rule filter_cong) (use same in auto)
  have m: "map (\<lambda>key. quote_string key @ '':'' @ concat_operand (canonicalizeJSON nf (lookup kvs' key)))
             (filter (\<lambda>key. lookup kvs key \<noteq> Prim PUndefined) (sort (map fst kvs)))
         = map (\<lambda>key. quote_string key @ '':'' @ concat_operand (canonicalizeJSON nf (lookup kvs key)))
             (filter (\<lambda>key. lookup kvs key \<noteq> Prim PUndefined) (sort (map fst kvs)))"
    by (rule map_cong) (use same in auto)
  show ?case
    by (simp only: canonicalizeJSON.simps Let_def keys f m)
qed

text \<open>
  C1. The canonical encoding and the fingerprint of a record do not depend on the order
  in which the keys of its mappings, at any depth, were inserted. Both are functions of
  the value alone (there is no state between two calls), so computing twice gives the
  same output.
\<close>

theorem fingerprint_ignores_key_order:
  assumes "key_perm v v'"
  shows "canonicalizeJSON nf v = canonicalizeJSON nf v' \<and> sha256 H nf v = sha256 H nf v'"
proof -
  have c: "canonicalizeJSON nf v = canonicalizeJSON nf v'"
    using assms by (rule key_perm_canonical)
  have "sha256 H nf v = sha256 H nf v'"
    using assms
  proof (cases rule: key_perm.cases)
    case (prim p)
    then show ?thesis by simp
  next
    case (arr xs ys)
    with c show ?thesis by simp
  next
    case (obj kvs kvs')
    with c show ?thesis by simp
  qed
  with c show ?thesis by simp
qed

theorem fingerprint_ignores_key_order_witness:
  "key_perm nested_record nested_record_reordered
   \<and> canonicalizeJSON integer_text nested_record
       = canonicalizeJSON integer_text nested_record_reordered
   \<and> sha256 checksum_digest integer_text nested_record
       = sha256 checksum_digest integer_text nested_record_reordered"
proof -
  have inner: "key_perm (JObj [(''y'', Prim PNull), (''x'', Prim (PStr ''v''))])
                        (JObj [(''x'', Prim (PStr ''v'')), (''y'', Prim PNull)])"
    by (rule key_perm.obj) (auto simp: lookup_def intro: key_perm.prim)
  have h: "key_perm nested_record nested_record_reordered"
    unfolding nested_record_def nested_record_reordered_def
    by (rule key_perm.obj) (auto simp: lookup_def intro: key_perm.prim key_perm.arr inner)
  show ?thesis
    using h fingerprint_ignores_key_order [OF h, of integer_text checksum_digest] by simp
qed

text \<open>A number that is not finite is written as the text \<open>null\<close>.\<close>

lemma not_finite_number_text:
  "canonicalizeJSON nf (Prim (PNum NaN)) = Some ''null''"
  "canonicalizeJSON nf (Prim (PNum PosInfinity)) = Some ''null''"
  "canonicalizeJSON nf (Prim (PNum NegInfinity)) = Some ''null''"
  by simp_all

text \<open>
  C7 (the code fails the claim). The encoder raises nothing for \<open>NaN\<close> nor for a
  function. \<open>NaN\<close> gets the text of \<open>null\<close>, so a record with the weight \<open>NaN\<close> has the
  fingerprint of the record with the weight \<open>null\<close>; a function in a record is written
  as the text \<open>undefined\<close> after its key, a text that is not JSON, and the record is
  hashed through it.
\<close>

theorem nan_and_function_are_encoded:
  "canonicalizeJSON integer_text (Prim (PNum NaN)) = Some ''null''
   \<and> canonicalizeJSON integer_text (Prim PNull) = Some ''null''
   \<and> canonicalizeJSON integer_text (JObj [(''weight'', Prim (PNum NaN))])
       = Some (''{'' @ quote_string ''weight'' @ '':null}'')
   \<and> sha256 checksum_digest integer_text (JObj [(''weight'', Prim (PNum NaN))])
       = sha256 checksum_digest integer_text (JObj [(''weight'', Prim PNull)])
   \<and> canonicalizeJSON integer_text (JObj [(''f'', Prim PFunction)])
       = Some (''{'' @ quote_string ''f'' @ '':undefined}'')
   \<and> sha256 checksum_digest integer_text (JObj [(''f'', Prim PFunction)])
       = Inr (checksum_digest (''{'' @ quote_string ''f'' @ '':undefined}''))"
  by (simp add: Let_def lookup_def concat_operand_def)

section \<open>Properties of the payloads\<close>

subsection \<open>The canonical text of the payloads\<close>

lemma canonical_id [simp]:
  "canonicalizeJSON nf (js_or (of_string_opt x) (Prim PNull)) = Some (id_text x)"
  by (auto simp: js_or_def of_string_opt_def id_text_def split: option.splits)

lemma id_defined [simp]: "js_or (of_string_opt x) (Prim PNull) \<noteq> Prim PUndefined"
  by (auto simp: js_or_def of_string_opt_def split: option.splits)

lemma stringify_number [simp]:
  "JSON_stringify nf (PNum n) = Some (number_text nf n)"
  by (cases n) (simp_all add: number_text_def)

lemma canonical_quantity [simp]:
  "canonicalizeJSON nf (of_quantity q) = Some (quantity_text nf q)"
  by (simp add: of_quantity_def quantity_text_def Let_def lookup_def concat_operand_def)

lemma of_quantity_object [simp]:
  "truthy (of_quantity q)" "of_quantity q \<noteq> Prim PUndefined"
  by (simp_all add: of_quantity_def)

lemma canonical_quantity_opt [simp]:
  "canonicalizeJSON nf (js_or (of_quantity_opt x) (Prim PNull)) = Some (quantity_opt_text nf x)"
  by (cases x) (simp_all add: js_or_def of_quantity_opt_def quantity_opt_text_def)

lemma quantity_defined [simp]: "js_or (of_quantity_opt x) (Prim PNull) \<noteq> Prim PUndefined"
  by (cases x) (simp_all add: js_or_def of_quantity_opt_def)

lemma canonical_references [simp]:
  "canonicalizeJSON nf (js_or (of_references ds) (JArr [])) = Some (references_text ds)"
  by (simp add: js_or_def of_references_def references_text_def join_item_def comp_def)

lemma references_defined [simp]: "js_or (of_references ds) (JArr []) \<noteq> Prim PUndefined"
  by (simp add: js_or_def of_references_def)

lemma canonical_assay [simp]:
  "canonicalizeJSON nf (js_or (of_assay_opt x) (Prim PNull)) = Some (assay_opt_text nf x)"
  by (cases x)
     (auto simp: js_or_def of_assay_opt_def assay_opt_text_def of_string_opt_def Let_def
        lookup_def concat_operand_def split: option.splits)

lemma assay_defined [simp]: "js_or (of_assay_opt x) (Prim PNull) \<noteq> Prim PUndefined"
  by (cases x) (simp_all add: js_or_def of_assay_opt_def)

lemma eventPayload_canonical:
  "canonicalizeJSON nf (eventPayload e) = Some (event_text nf e)"
  unfolding eventPayload_def event_text_def
  by (simp add: Let_def lookup_def concat_operand_def del: join.simps)

lemma batchPayload_canonical:
  "canonicalizeJSON nf (batchPayload b) = Some (batch_text nf b)"
  unfolding batchPayload_def batch_text_def
  by (simp add: Let_def lookup_def concat_operand_def del: join.simps)

lemma sha256_object:
  "canonicalizeJSON nf (JObj kvs) = Some s \<Longrightarrow> sha256 H nf (JObj kvs) = Inr (H s)"
  by (simp del: canonicalizeJSON.simps)

lemma computeEventHash_eq: "computeEventHash H nf e = Inr (H (event_text nf e))"
proof -
  obtain kvs where "eventPayload e = JObj kvs"
    by (simp add: eventPayload_def)
  with eventPayload_canonical [of nf e] show ?thesis
    by (simp add: computeEventHash_def sha256_object del: canonicalizeJSON.simps)
qed

lemma computeBatchHash_eq: "computeBatchHash H nf b = Inr (H (batch_text nf b))"
proof -
  obtain kvs where "batchPayload b = JObj kvs"
    by (simp add: batchPayload_def)
  with batchPayload_canonical [of nf b] show ?thesis
    by (simp add: computeBatchHash_def sha256_object del: canonicalizeJSON.simps)
qed

lemma fingerprintMatches_eq:
  "fingerprintMatches H nf ev = (eventPayloadHash ev = Some (H (event_text nf ev)))"
  by (auto simp: fingerprintMatches_def computeEventHash_eq split: option.splits)

subsection \<open>The sample data\<close>

lemmas text_defs =
  event_text_def batch_text_def id_text_def number_text_def quantity_text_def
  quantity_opt_text_def references_text_def assay_opt_text_def quote_string_def
  quote_char_def checksum_digest_def hexdigit_def integer_text_def

lemma digits_25 [simp]: "digits 25 = ''25''" "digits 20 = ''20''"
  by (simp_all add: digits.simps hexdigit_def)

lemma sample_hashes:
  "checksum_digest (event_text integer_text create_event) = ''4eee''"
  "checksum_digest (event_text integer_text ship_event) = ''5193''"
  "checksum_digest (event_text integer_text receive_event) = ''5234''"
  "checksum_digest (event_text integer_text tampered_ship_event) = ''518e''"
  "checksum_digest (event_text integer_text moved_ship_event) = ''5194''"
  "checksum_digest (batch_text integer_text created_batch) = ''4c7e''"
  "checksum_digest (batch_text integer_text tampered_batch) = ''4c79''"
  by (simp_all add: text_defs create_event_def ship_event_def receive_event_def
        tampered_ship_event_def moved_ship_event_def created_batch_def tampered_batch_def)

text \<open>
  C8. The hash of an event does not read the transaction reference, the notes or the
  stored hash: attaching an anchor reference leaves the hash as it was.
\<close>

theorem anchor_reference_not_fingerprinted:
  "computeEventHash H nf (e\<lparr>onChainTxHash := tx\<rparr>) = computeEventHash H nf (e\<lparr>onChainTxHash := None\<rparr>)
   \<and> computeEventHash H nf (e\<lparr>onChainTxHash := tx\<rparr>) = computeEventHash H nf e
   \<and> computeEventHash H nf (e\<lparr>ev_notes := n\<rparr>) = computeEventHash H nf e
   \<and> eventPayload (e\<lparr>onChainTxHash := tx, ev_notes := n, eventPayloadHash := h\<rparr>) = eventPayload e"
  by (simp add: computeEventHash_def eventPayload_def)

text \<open>
  C10. A weight of zero given to \<open>createEvent\<close> and an assay value of zero given to
  \<open>createBatch\<close> give the entity that no value gives: the quantity, or the declared
  assay, is \<open>null\<close>, the payload carries \<open>null\<close> and the hash is the same.
\<close>

theorem zero_is_absent:
  "createEvent uuid' now' ty bid fp tp ff tf (Some (Finite 0)) wu docs nts
     = createEvent uuid' now' ty bid fp tp ff tf None wu docs nts
   \<and> ev_quantity (createEvent uuid' now' ty bid fp tp ff tf (Some (Finite 0)) wu docs nts) = None
   \<and> property (eventPayload (createEvent uuid' now' ty bid fp tp ff tf (Some (Finite 0)) wu docs nts))
        ''quantity'' = Prim PNull
   \<and> computeEventHash H nf (createEvent uuid' now' ty bid fp tp ff tf (Some (Finite 0)) wu docs nts)
     = computeEventHash H nf (createEvent uuid' now' ty bid fp tp ff tf None wu docs nts)
   \<and> createBatch uuid' now' ref com fac own w wu (Some (Finite 0)) au nts
     = createBatch uuid' now' ref com fac own w wu None au' nts
   \<and> declaredAssay (createBatch uuid' now' ref com fac own w wu (Some (Finite 0)) au nts) = None
   \<and> property (batchPayload (createBatch uuid' now' ref com fac own w wu (Some (Finite 0)) au nts))
        ''declaredAssay'' = Prim PNull
   \<and> computeBatchHash H nf (createBatch uuid' now' ref com fac own w wu (Some (Finite 0)) au nts)
     = computeBatchHash H nf (createBatch uuid' now' ref com fac own w wu None au' nts)"
  by (simp add: createEvent_def createBatch_def eventPayload_def batchPayload_def lookup_def
      js_or_def of_quantity_opt_def of_assay_opt_def)



section \<open>Properties of the service\<close>

subsection \<open>The store\<close>

lemma map_of_map_set: "map_of (map_set k v xs) = (map_of xs)(k \<mapsto> v)"
  by (induction xs) (auto simp: fun_eq_iff)

lemma getBatch_updateBatch [simp]:
  "getBatch (updateBatch d b) k = (if k = batchId b then Some b else getBatch d k)"
  by (simp add: getBatch_def updateBatch_def logAction_def map_of_map_set)

lemma getBatch_saveEvent [simp]: "getBatch (saveEvent d e) k = getBatch d k"
  by (simp add: getBatch_def saveEvent_def logAction_def)

lemma getEvent_saveEvent [simp]:
  "getEvent (saveEvent d e) k = (if k = eventId e then Some e else getEvent d k)"
  by (simp add: getEvent_def saveEvent_def logAction_def map_of_map_set)

subsection \<open>Recording\<close>

lemma hashAnchorStore_result:
  "\<exists>res w'. hashAnchorStore H nf inp w b change ev = Inr (res, w')
     \<and> res_batch res = (change b)\<lparr>eventIds := eventIds (change b) @ [eventId ev]\<rparr>
     \<and> eventId (res_event res) = eventId ev
     \<and> eventType (res_event res) = eventType ev
     \<and> fingerprintMatches H nf (res_event res)
     \<and> getEvent (db w') (eventId ev) = Some (res_event res)
     \<and> getBatch (db w') (batchId (change b)) = Some (res_batch res)"
  by (simp add: hashAnchorStore_def computeEventHash_eq fingerprintMatches_eq Let_def
        event_text_def split: prod.splits)

lemma recordReceipt_result:
  assumes "getBatch (db w) bid = Some b"
  shows "\<exists>res w'. recordReceipt H nf inp w bid rd = Inr (res, w')
     \<and> status (res_batch res) = RECEIVED
     \<and> batchId (res_batch res) = batchId b
     \<and> eventId (res_event res) = uuid inp
     \<and> eventType (res_event res) = RECEIVE
     \<and> fingerprintMatches H nf (res_event res)
     \<and> getEvent (db w') (uuid inp) = Some (res_event res)
     \<and> getBatch (db w') (batchId b) = Some (res_batch res)"
proof -
  let ?change = "\<lambda>b. b\<lparr>status := RECEIVED, ownerPartyId := rcpt_receiverPartyId rd\<rparr>"
  let ?ev = "createEvent (uuid inp) (now inp) RECEIVE bid
               (Some (ownerPartyId b))
               (Some (rcpt_receiverPartyId rd))
               None
               (rcpt_facilityId rd)
               (Some (number_or (rcpt_receivedWeight rd) (weight (quantity b))))
               (Some (unit (quantity b)))
               (Some (list_or (rcpt_documentIds rd) []))
               (Some (string_or (rcpt_notes rd) ''Shipment received and acknowledged''))"
  have id: "eventId ?ev = uuid inp" "eventType ?ev = RECEIVE"
    by (simp_all add: createEvent_def)
  from hashAnchorStore_result [of H nf inp w b ?change ?ev] obtain res w' where r:
    "hashAnchorStore H nf inp w b ?change ?ev = Inr (res, w')"
    "res_batch res = (?change b)\<lparr>eventIds := eventIds (?change b) @ [eventId ?ev]\<rparr>"
    "eventId (res_event res) = eventId ?ev"
    "eventType (res_event res) = eventType ?ev"
    "fingerprintMatches H nf (res_event res)"
    "getEvent (db w') (eventId ?ev) = Some (res_event res)"
    "getBatch (db w') (batchId (?change b)) = Some (res_batch res)"
    by blast
  have "recordReceipt H nf inp w bid rd = Inr (res, w')"
    using assms r(1) by (simp add: recordReceipt_def)
  moreover have "status (res_batch res) = RECEIVED" "batchId (res_batch res) = batchId b"
    using r(2) by simp_all
  moreover have "getBatch (db w') (batchId b) = Some (res_batch res)"
    using r(7) by simp
  ultimately show ?thesis
    using r(3-6) id by auto
qed

lemma recordShipment_result:
  assumes "getBatch (db w) bid = Some b"
  shows "\<exists>res w'. recordShipment H nf inp w bid sd = Inr (res, w')
     \<and> status (res_batch res) = IN_TRANSIT
     \<and> batchId (res_batch res) = batchId b
     \<and> eventId (res_event res) = uuid inp
     \<and> eventType (res_event res) = SHIP
     \<and> fingerprintMatches H nf (res_event res)
     \<and> getEvent (db w') (uuid inp) = Some (res_event res)
     \<and> getBatch (db w') (batchId b) = Some (res_batch res)"
proof -
  let ?change = "\<lambda>b. b\<lparr>status := IN_TRANSIT\<rparr>"
  let ?ev = "createEvent (uuid inp) (now inp) SHIP bid
               (Some (ownerPartyId b))
               (ship_toPartyId sd)
               (Some (string_or (ship_fromFacilityId sd) (originFacilityId b)))
               (ship_toFacilityId sd)
               (Some (weight (quantity b)))
               (Some (unit (quantity b)))
               (Some (list_or (ship_documentIds sd) []))
               (Some (string_or (ship_notes sd) ''Shipment dispatched''))"
  have id: "eventId ?ev = uuid inp" "eventType ?ev = SHIP"
    by (simp_all add: createEvent_def)
  from hashAnchorStore_result [of H nf inp w b ?change ?ev] obtain res w' where r:
    "hashAnchorStore H nf inp w b ?change ?ev = Inr (res, w')"
    "res_batch res = (?change b)\<lparr>eventIds := eventIds (?change b) @ [eventId ?ev]\<rparr>"
    "eventId (res_event res) = eventId ?ev"
    "eventType (res_event res) = eventType ?ev"
    "fingerprintMatches H nf (res_event res)"
    "getEvent (db w') (eventId ?ev) = Some (res_event res)"
    "getBatch (db w') (batchId (?change b)) = Some (res_batch res)"
    by blast
  have "recordShipment H nf inp w bid sd = Inr (res, w')"
    using assms r(1) by (simp add: recordShipment_def)
  moreover have "status (res_batch res) = IN_TRANSIT" "batchId (res_batch res) = batchId b"
    using r(2) by simp_all
  moreover have "getBatch (db w') (batchId b) = Some (res_batch res)"
    using r(7) by simp
  ultimately show ?thesis
    using r(3-6) id by auto
qed

text \<open>
  C2 (as amended). Recording a shipment or a receipt makes no test of the status of the
  batch: for a stored batch in any status both succeed, the event is hashed and stored
  and the status becomes \<open>InTransit\<close>, or \<open>Received\<close>. A shipment followed by a receipt
  leaves the status \<open>Received\<close>.
\<close>

theorem recording_does_not_check_status:
  assumes "getBatch (db w) bid = Some b" and "batchId b = bid"
  shows "(\<exists>res w'. recordReceipt H nf inp w bid rd = Inr (res, w')
            \<and> status (res_batch res) = RECEIVED
            \<and> getBatch (db w') bid = Some (res_batch res)
            \<and> getEvent (db w') (uuid inp) = Some (res_event res)
            \<and> fingerprintMatches H nf (res_event res))
       \<and> (\<exists>res w'. recordShipment H nf inp w bid sd = Inr (res, w')
            \<and> status (res_batch res) = IN_TRANSIT
            \<and> getBatch (db w') bid = Some (res_batch res)
            \<and> getEvent (db w') (uuid inp) = Some (res_event res)
            \<and> fingerprintMatches H nf (res_event res)
            \<and> (\<exists>res2 w2. recordReceipt H nf inp2 w' bid rd = Inr (res2, w2)
                  \<and> status (res_batch res2) = RECEIVED
                  \<and> getBatch (db w2) bid = Some (res_batch res2)
                  \<and> getEvent (db w2) (uuid inp2) = Some (res_event res2)
                  \<and> fingerprintMatches H nf (res_event res2)))"
proof -
  from recordReceipt_result [OF assms(1), of H nf inp rd]
  have receipt: "\<exists>res w'. recordReceipt H nf inp w bid rd = Inr (res, w')
            \<and> status (res_batch res) = RECEIVED
            \<and> getBatch (db w') bid = Some (res_batch res)
            \<and> getEvent (db w') (uuid inp) = Some (res_event res)
            \<and> fingerprintMatches H nf (res_event res)"
    using assms(2) by auto
  from recordShipment_result [OF assms(1), of H nf inp sd] obtain res w' where ship:
    "recordShipment H nf inp w bid sd = Inr (res, w')"
    "status (res_batch res) = IN_TRANSIT"
    "batchId (res_batch res) = batchId b"
    "fingerprintMatches H nf (res_event res)"
    "getEvent (db w') (uuid inp) = Some (res_event res)"
    "getBatch (db w') (batchId b) = Some (res_batch res)"
    by blast
  from ship(6) assms(2) have stored: "getBatch (db w') bid = Some (res_batch res)"
    by simp
  from recordReceipt_result [OF stored, of H nf inp2 rd] ship(3) assms(2)
  have "\<exists>res2 w2. recordReceipt H nf inp2 w' bid rd = Inr (res2, w2)
                  \<and> status (res_batch res2) = RECEIVED
                  \<and> getBatch (db w2) bid = Some (res_batch res2)
                  \<and> getEvent (db w2) (uuid inp2) = Some (res_event res2)
                  \<and> fingerprintMatches H nf (res_event res2)"
    by auto
  with ship stored receipt show ?thesis
    by blast
qed

lemma created_world_batch:
  "getBatch (db created_world) ''batch-1'' = Some created_batch"
  "batchId created_batch = ''batch-1''" "status created_batch = CREATED"
  by (simp_all add: created_world_def getBatch_def created_batch_def)

theorem recording_does_not_check_status_witness:
  "getBatch (db created_world) ''batch-1'' = Some created_batch
   \<and> batchId created_batch = ''batch-1''
   \<and> status created_batch = CREATED
   \<and> (\<exists>res w'. recordReceipt checksum_digest integer_text inE2 created_world ''batch-1''
                   sample_receipt = Inr (res, w')
            \<and> status (res_batch res) = RECEIVED
            \<and> getBatch (db w') ''batch-1'' = Some (res_batch res)
            \<and> getEvent (db w') ''event-2'' = Some (res_event res)
            \<and> fingerprintMatches checksum_digest integer_text (res_event res))
   \<and> (\<exists>res w'. recordShipment checksum_digest integer_text inE2 created_world ''batch-1''
                   sample_shipment = Inr (res, w')
            \<and> status (res_batch res) = IN_TRANSIT
            \<and> (\<exists>res2 w2. recordReceipt checksum_digest integer_text inE3 w' ''batch-1''
                            sample_receipt = Inr (res2, w2)
                  \<and> status (res_batch res2) = RECEIVED))"
proof -
  have u: "uuid inE2 = ''event-2''" by (simp add: inE2_def)
  from recording_does_not_check_status [OF created_world_batch(1) created_world_batch(2),
      of checksum_digest integer_text inE2 sample_receipt sample_shipment inE3]
  show ?thesis
    unfolding u using created_world_batch by blast
qed

theorem receipt_on_created_batch_succeeds:
  "map_option status (getBatch (db created_world) ''batch-1'') = Some CREATED
   \<and> \<not> isl receipt_on_created
   \<and> status (res_batch (fst (projr receipt_on_created))) = RECEIVED
   \<and> eventType (res_event (fst (projr receipt_on_created))) = RECEIVE
   \<and> getEvent (db (snd (projr receipt_on_created))) ''event-2''
       = Some (res_event (fst (projr receipt_on_created)))
   \<and> fingerprintMatches checksum_digest integer_text (res_event (fst (projr receipt_on_created)))"
proof -
  have u: "uuid inE2 = ''event-2''" by (simp add: inE2_def)
  from recordReceipt_result [OF created_world_batch(1), of checksum_digest integer_text inE2 sample_receipt]
  obtain res w' where eq: "receipt_on_created = Inr (res, w')"
    and r: "status (res_batch res) = RECEIVED"
    "eventType (res_event res) = RECEIVE"
    "fingerprintMatches checksum_digest integer_text (res_event res)"
    "getEvent (db w') ''event-2'' = Some (res_event res)"
    unfolding receipt_on_created_def u by blast
  show ?thesis
    unfolding eq using r by (simp add: created_world_batch)
qed

subsection \<open>The sample scenario\<close>

lemma sample_event_fields [simp]:
  "eventId create_event = ''event-1''" "eventType create_event = CREATE"
  "eventPayloadHash create_event = Some ''4eee''" "onChainTxHash create_event = Some ''0xe1''"
  "ev_batchId create_event = ''batch-1''"
  by (simp_all add: create_event_def)

lemma sample_inputs [simp]:
  "uuid inB = ''batch-1''" "now inB = ''2024-01-01T00:00:00.000Z''" "fakeTxHash inB = ''b1''"
  "uuid inE1 = ''event-1''" "now inE1 = ''2024-01-01T00:00:00.001Z''" "fakeTxHash inE1 = ''e1''"
  "uuid inE2 = ''event-2''" "now inE2 = ''2024-01-01T00:00:00.002Z''" "fakeTxHash inE2 = ''e2''"
  "uuid inE3 = ''event-3''" "now inE3 = ''2024-01-01T00:00:00.003Z''" "fakeTxHash inE3 = ''e3''"
  by (simp_all add: inB_def inE1_def inE2_def inE3_def)

lemma sample_creation:
  "createBatchAtMine checksum_digest integer_text inB inE1 empty_world sample_batchData []
   = Inr (\<lparr> cr_batch = created_batch, cr_event = create_event,
            cr_batchAnchor = Anchored batch_anchor, cr_eventAnchor = Anchored create_anchor \<rparr>,
          created_world)"
proof -
  have b: "createBatch ''batch-1'' ''2024-01-01T00:00:00.000Z'' ''REF-1'' ''Gold'' ''mine-1''
             ''party-1'' (Finite 25) None None None None
           = created_batch\<lparr>eventIds := []\<rparr>"
    by (simp add: createBatch_def created_batch_def)
  have e: "createEvent ''event-1'' ''2024-01-01T00:00:00.001Z'' CREATE ''batch-1'' None
             (Some ''party-1'') None (Some ''mine-1'') (Some (Finite 25)) (Some ''kg'') (Some [])
             (Some ''Batch created at origin facility'')
           = create_event\<lparr>eventPayloadHash := None, onChainTxHash := None\<rparr>"
    by (simp add: createEvent_def create_event_def)
  have t: "event_text integer_text (create_event\<lparr>eventPayloadHash := None, onChainTxHash := None\<rparr>)
           = event_text integer_text create_event"
    "batch_text integer_text (created_batch\<lparr>eventIds := [], documentIds := []\<rparr>)
           = batch_text integer_text created_batch"
    by (simp_all add: event_text_def batch_text_def)
  have f: "batchId created_batch = ''batch-1''" "ownerPartyId created_batch = ''party-1''"
    "originFacilityId created_batch = ''mine-1''"
    "quantity created_batch = \<lparr> weight = Finite 25, unit = ''kg'' \<rparr>"
    "created_batch\<lparr>eventIds := [], documentIds := [], eventIds := [''event-1'']\<rparr> = created_batch"
    "create_event\<lparr>eventPayloadHash := None, onChainTxHash := None,
        eventPayloadHash := Some ''4eee'', onChainTxHash := Some ''0xe1''\<rparr> = create_event"
    by (simp_all add: created_batch_def create_event_def)
  show ?thesis
    by (simp add: createBatchAtMine_def sample_batchData_def b e t f computeEventHash_eq
          computeBatchHash_eq sample_hashes anchorBatch_def anchorEvent_def anchorHash_def
          empty_world_def saveBatch_def saveEvent_def logAction_def created_world_def
          batch_anchor_def create_anchor_def audit_def Let_def)
qed

lemma sample_shipping:
  "recordShipment checksum_digest integer_text inE2 created_world ''batch-1'' sample_shipment
   = Inr (\<lparr> res_event = ship_event, res_anchor = Anchored ship_anchor,
            res_batch = shipped_batch \<rparr>, shipped_world)"
proof -
  have e: "createEvent ''event-2'' ''2024-01-01T00:00:00.002Z'' SHIP ''batch-1''
             (Some ''party-1'') (Some ''party-2'') (Some ''mine-1'') (Some ''refinery-1'')
             (Some (Finite 25)) (Some ''kg'') (Some []) (Some ''Shipment dispatched'')
           = ship_event\<lparr>eventPayloadHash := None, onChainTxHash := None\<rparr>"
    by (simp add: createEvent_def ship_event_def)
  have t: "event_text integer_text (ship_event\<lparr>eventPayloadHash := None, onChainTxHash := None\<rparr>)
           = event_text integer_text ship_event"
    by (simp add: event_text_def)
  have f: "batchId created_batch = ''batch-1''" "ownerPartyId created_batch = ''party-1''"
    "originFacilityId created_batch = ''mine-1''"
    "quantity created_batch = \<lparr> weight = Finite 25, unit = ''kg'' \<rparr>"
    "eventIds created_batch = [''event-1'']"
    "created_batch\<lparr>status := IN_TRANSIT, eventIds := [''event-1'', ''event-2'']\<rparr> = shipped_batch"
    "batchId shipped_batch = ''batch-1''"
    "eventId ship_event = ''event-2''"
    "ship_event\<lparr>eventPayloadHash := Some ''5193'', onChainTxHash := Some ''0xe2''\<rparr> = ship_event"
    by (simp_all add: created_batch_def shipped_batch_def ship_event_def)
  show ?thesis
    by (simp add: recordShipment_def created_world_batch sample_shipment_def string_or_def
          list_or_def e f)
       (simp add: hashAnchorStore_def t f computeEventHash_eq sample_hashes
          anchorEvent_def anchorHash_def created_world_def updateBatch_def saveEvent_def
          logAction_def shipped_world_def ship_anchor_def audit_def Let_def)
qed

lemma sample_receiving:
  "recordReceipt checksum_digest integer_text inE3 shipped_world ''batch-1'' sample_receipt
   = Inr (\<lparr> res_event = receive_event, res_anchor = Anchored receive_anchor,
            res_batch = received_batch \<rparr>, received_world)"
proof -
  have e: "createEvent ''event-3'' ''2024-01-01T00:00:00.003Z'' RECEIVE ''batch-1''
             (Some ''party-1'') (Some ''party-2'') None (Some ''refinery-1'')
             (Some (Finite 25)) (Some ''kg'') (Some [])
             (Some ''Shipment received and acknowledged'')
           = receive_event\<lparr>eventPayloadHash := None, onChainTxHash := None\<rparr>"
    by (simp add: createEvent_def receive_event_def)
  have t: "event_text integer_text (receive_event\<lparr>eventPayloadHash := None, onChainTxHash := None\<rparr>)
           = event_text integer_text receive_event"
    by (simp add: event_text_def)
  have g: "getBatch (db shipped_world) ''batch-1'' = Some shipped_batch"
    by (simp add: shipped_world_def getBatch_def)
  have f: "batchId shipped_batch = ''batch-1''" "ownerPartyId shipped_batch = ''party-1''"
    "quantity shipped_batch = \<lparr> weight = Finite 25, unit = ''kg'' \<rparr>"
    "eventIds shipped_batch = [''event-1'', ''event-2'']"
    "shipped_batch\<lparr>status := RECEIVED, ownerPartyId := ''party-2'',
        eventIds := [''event-1'', ''event-2'', ''event-3'']\<rparr> = received_batch"
    "batchId received_batch = ''batch-1''"
    "eventId receive_event = ''event-3''"
    "receive_event\<lparr>eventPayloadHash := Some ''5234'', onChainTxHash := Some ''0xe3''\<rparr>
       = receive_event"
    by (simp_all add: created_batch_def shipped_batch_def received_batch_def receive_event_def)
  show ?thesis
    by (simp add: recordReceipt_def g sample_receipt_def string_or_def list_or_def
          number_or_def e f)
       (simp add: hashAnchorStore_def t f computeEventHash_eq
          sample_hashes anchorEvent_def anchorHash_def shipped_world_def updateBatch_def
          saveEvent_def logAction_def received_world_def receive_anchor_def audit_def Let_def)
qed

subsection \<open>Verification\<close>

lemma verifyEvent_result:
  "\<exists>r3. verifyEvent H nf hasReceipt svc ev r = Inr r3
        \<and> map hashMatch (ver_events r3) = map hashMatch (ver_events r) @ [fingerprintMatches H nf ev]
        \<and> map ver_eventId (ver_events r3) = map ver_eventId (ver_events r) @ [eventId ev]
        \<and> overallValid r3 = (overallValid r \<and> fingerprintMatches H nf ev)
        \<and> batchHashValid r3 = batchHashValid r"
proof -
  have m: "fingerprintMatches H nf ev = (Some (H (event_text nf ev)) = eventPayloadHash ev)"
    by (auto simp: fingerprintMatches_eq)
  show ?thesis
    by (simp add: verifyEvent_def computeEventHash_eq m Let_def split: option.splits prod.splits)
qed

lemma verifyEvents_result:
  "\<exists>r'. verifyEvents H nf hasReceipt svc evs r = Inr r'
        \<and> map hashMatch (ver_events r') = map hashMatch (ver_events r) @ map (fingerprintMatches H nf) evs
        \<and> map ver_eventId (ver_events r') = map ver_eventId (ver_events r) @ map eventId evs
        \<and> overallValid r' = (overallValid r \<and> list_all (fingerprintMatches H nf) evs)
        \<and> batchHashValid r' = batchHashValid r"
proof (induction evs arbitrary: r)
  case Nil
  then show ?case by simp
next
  case (Cons ev evs)
  from verifyEvent_result [of H nf hasReceipt svc ev r] obtain r3 where r3:
    "verifyEvent H nf hasReceipt svc ev r = Inr r3"
    "map hashMatch (ver_events r3) = map hashMatch (ver_events r) @ [fingerprintMatches H nf ev]"
    "map ver_eventId (ver_events r3) = map ver_eventId (ver_events r) @ [eventId ev]"
    "overallValid r3 = (overallValid r \<and> fingerprintMatches H nf ev)"
    "batchHashValid r3 = batchHashValid r"
    by blast
  from Cons.IH [of r3] obtain r' where r':
    "verifyEvents H nf hasReceipt svc evs r3 = Inr r'"
    "map hashMatch (ver_events r') = map hashMatch (ver_events r3) @ map (fingerprintMatches H nf) evs"
    "map ver_eventId (ver_events r') = map ver_eventId (ver_events r3) @ map eventId evs"
    "overallValid r' = (overallValid r3 \<and> list_all (fingerprintMatches H nf) evs)"
    "batchHashValid r' = batchHashValid r3"
    by blast
  show ?case
    using r3 r' by simp
qed

lemma verifyBatchIntegrity_result:
  assumes "getBatch (db w) bid = Some b"
  shows "\<exists>r. verifyBatchIntegrity H nf ms hasReceipt w bid = Inr (Results r)
        \<and> map hashMatch (ver_events r) = map (fingerprintMatches H nf) (getEventsByBatch ms (db w) bid)
        \<and> map ver_eventId (ver_events r) = map eventId (getEventsByBatch ms (db w) bid)
        \<and> overallValid r = list_all (fingerprintMatches H nf) (getEventsByBatch ms (db w) bid)
        \<and> batchHashValid r"
proof -
  note bh = computeBatchHash_eq [of H nf b]
  let ?r0 = "\<lparr> ver_batchId = bid, overallValid = True, batchHashValid = True,
                      ver_events = [], anchorVerifications = [] \<rparr>"
  from verifyEvents_result [of H nf hasReceipt "anchoring w" "getEventsByBatch ms (db w) bid" ?r0]
  obtain r where "verifyEvents H nf hasReceipt (anchoring w) (getEventsByBatch ms (db w) bid) ?r0 = Inr r"
    "map hashMatch (ver_events r) = map (fingerprintMatches H nf) (getEventsByBatch ms (db w) bid)"
    "map ver_eventId (ver_events r) = map eventId (getEventsByBatch ms (db w) bid)"
    "overallValid r = list_all (fingerprintMatches H nf) (getEventsByBatch ms (db w) bid)"
    "batchHashValid r"
    by auto
  then show ?thesis
    by (simp add: verifyBatchIntegrity_def assms bh Let_def)
qed

text \<open>The events of a batch, for the verifier, are the stored events whose property
  \<open>batchId\<close> is the identifier of the batch.\<close>

lemma events_of_batch:
  "set (getEventsByBatch ms d bid) = {e \<in> snd ` set (events d). ev_batchId e = bid}"
  by (auto simp: getEventsByBatch_def getAllEvents_def)







text \<open>
  C5. What the anchoring service answers has no part in \<open>overallValid\<close>: with any other
  state of the service and any other answers of the provider, the verifier reports the
  same \<open>hashMatch\<close> for each event and the same \<open>overallValid\<close>, which is true exactly when
  every reported \<open>hashMatch\<close> is.
\<close>

theorem anchor_results_do_not_affect_validity:
  assumes "getBatch (db w) bid = Some b"
  shows "\<exists>r r'. verifyBatchIntegrity H nf ms hasReceipt w bid = Inr (Results r)
      \<and> verifyBatchIntegrity H nf ms hasReceipt' (w\<lparr>anchoring := svc'\<rparr>) bid = Inr (Results r')
      \<and> map hashMatch (ver_events r') = map hashMatch (ver_events r)
      \<and> overallValid r' = overallValid r
      \<and> overallValid r = (\<forall>v \<in> set (ver_events r). hashMatch v)"
proof -
  from verifyBatchIntegrity_result [OF assms, of H nf ms hasReceipt] obtain r where r:
    "verifyBatchIntegrity H nf ms hasReceipt w bid = Inr (Results r)"
    "map hashMatch (ver_events r) = map (fingerprintMatches H nf) (getEventsByBatch ms (db w) bid)"
    "overallValid r = list_all (fingerprintMatches H nf) (getEventsByBatch ms (db w) bid)"
    by blast
  have "getBatch (db (w\<lparr>anchoring := svc'\<rparr>)) bid = Some b"
    using assms by simp
  from verifyBatchIntegrity_result [OF this, of H nf ms hasReceipt'] obtain r' where r':
    "verifyBatchIntegrity H nf ms hasReceipt' (w\<lparr>anchoring := svc'\<rparr>) bid = Inr (Results r')"
    "map hashMatch (ver_events r') = map (fingerprintMatches H nf) (getEventsByBatch ms (db w) bid)"
    "overallValid r' = list_all (fingerprintMatches H nf) (getEventsByBatch ms (db w) bid)"
    by auto
  have "list_all (fingerprintMatches H nf) (getEventsByBatch ms (db w) bid)
        = list_all (\<lambda>x. x) (map (fingerprintMatches H nf) (getEventsByBatch ms (db w) bid))"
    by (simp add: list_all_iff)
  also have "\<dots> = list_all (\<lambda>x. x) (map hashMatch (ver_events r))"
    by (simp only: r(2))
  also have "\<dots> = (\<forall>v \<in> set (ver_events r). hashMatch v)"
    by (simp add: list_all_iff)
  finally have "overallValid r = (\<forall>v \<in> set (ver_events r). hashMatch v)"
    using r(3) by simp
  with r r' show ?thesis
    by auto
qed

lemma created_world_events:
  "getEventsByBatch ms (db created_world) ''batch-1'' = [create_event]"
  by (simp add: created_world_def getEventsByBatch_def getAllEvents_def)

theorem anchor_results_do_not_affect_validity_witness:
  "getBatch (db created_world) ''batch-1'' = Some created_batch
   \<and> (\<exists>r r'. verifyBatchIntegrity checksum_digest integer_text sample_ms no_receipts
                 created_world ''batch-1'' = Inr (Results r)
          \<and> verifyBatchIntegrity checksum_digest integer_text sample_ms no_receipts
                 unanchored_world ''batch-1'' = Inr (Results r')
          \<and> map anchorValid (ver_events r) = [Some True]
          \<and> map anchorValid (ver_events r') = [Some False]
          \<and> map hashMatch (ver_events r') = [True]
          \<and> overallValid r' = overallValid r
          \<and> overallValid r')"
proof -
  let ?lost = "\<lparr> simulationMode = True, simulatedTransactions = [] \<rparr>"
  from anchor_results_do_not_affect_validity [OF created_world_batch(1),
      of checksum_digest integer_text sample_ms no_receipts no_receipts ?lost]
  obtain r r' where r:
    "verifyBatchIntegrity checksum_digest integer_text sample_ms no_receipts
       created_world ''batch-1'' = Inr (Results r)"
    "verifyBatchIntegrity checksum_digest integer_text sample_ms no_receipts
       unanchored_world ''batch-1'' = Inr (Results r')"
    "overallValid r' = overallValid r"
    unfolding unanchored_world_def by blast
  have a: "anchoring created_world
           = \<lparr> simulationMode = True, simulatedTransactions = [batch_anchor, create_anchor] \<rparr>"
    "anchoring unanchored_world = ?lost"
    "db unanchored_world = db created_world"
    by (simp_all add: created_world_def unanchored_world_def)
  have tx: "txHash batch_anchor = Some ''0xb1''" "txHash create_anchor = Some ''0xe1''"
    by (simp_all add: batch_anchor_def create_anchor_def)
  have "map anchorValid (ver_events r) = [Some True] \<and> overallValid r"
    using r(1)
    by (auto simp: verifyBatchIntegrity_def created_world_batch created_world_events
          computeBatchHash_eq verifyEvent_def computeEventHash_eq sample_hashes
          verifyAnchor_def a tx Let_def)
  moreover have "map anchorValid (ver_events r') = [Some False] \<and> map hashMatch (ver_events r') = [True]"
    using r(2)
    by (auto simp: verifyBatchIntegrity_def created_world_batch created_world_events
          computeBatchHash_eq verifyEvent_def computeEventHash_eq sample_hashes
          verifyAnchor_def a Let_def)
  ultimately show ?thesis
    using r created_world_batch(1) by auto
qed

text \<open>
  C3 (the code fails the claim). The stored batch of the sample has had its weight
  changed after its hash \<open>4c7e\<close> was anchored; the hash of the batch as stored is now
  \<open>4c79\<close>. The verifier computes that hash, compares it with nothing and answers
  \<open>batchHashValid = true\<close> and \<open>overallValid = true\<close>.
\<close>

theorem tampered_batch_passes_verification:
  "anchorHash_of batch_anchor = ''4c7e''
   \<and> computeBatchHash checksum_digest integer_text created_batch = Inr ''4c7e''
   \<and> getBatch (db tampered_batch_world) ''batch-1'' = Some tampered_batch
   \<and> computeBatchHash checksum_digest integer_text tampered_batch = Inr ''4c79''
   \<and> verifyBatchIntegrity checksum_digest integer_text sample_ms no_receipts
        tampered_batch_world ''batch-1''
      = Inr (Results
          \<lparr> ver_batchId = ''batch-1'', overallValid = True, batchHashValid = True,
            ver_events =
              [\<lparr> ver_eventId = ''event-1'', ver_eventType = CREATE,
                 ver_storedHash = Some ''4eee'', ver_computedHash = ''4eee'',
                 hashMatch = True, anchorValid = Some True \<rparr>],
            anchorVerifications =
              [\<lparr> av_eventId = ''event-1'', av_txHash = ''0xe1'', verified = True \<rparr>] \<rparr>)"
proof -
  have w: "getBatch (db tampered_batch_world) ''batch-1'' = Some tampered_batch"
    "getEventsByBatch sample_ms (db tampered_batch_world) ''batch-1'' = [create_event]"
    "anchoring tampered_batch_world
       = \<lparr> simulationMode = True, simulatedTransactions = [batch_anchor, create_anchor] \<rparr>"
    by (simp_all add: tampered_batch_world_def created_world_def getBatch_def
          getEventsByBatch_def getAllEvents_def)
  have tx: "txHash batch_anchor = Some ''0xb1''" "txHash create_anchor = Some ''0xe1''"
    "anchorHash_of batch_anchor = ''4c7e''"
    by (simp_all add: batch_anchor_def create_anchor_def)
  show ?thesis
    by (simp add: verifyBatchIntegrity_def w tx computeBatchHash_eq verifyEvent_def
          computeEventHash_eq sample_hashes verifyAnchor_def Let_def)
qed

subsection \<open>Documents\<close>

lemma getDocument_saveDocument [simp]:
  "getDocument (saveDocument d doc) k = (if k = documentId doc then Some doc else getDocument d k)"
  by (simp add: getDocument_def saveDocument_def logAction_def map_of_map_set)

lemma hashDocument_eq: "hashDocument H nf c = Inr (H c)"
  by (simp add: hashDocument_def)

text \<open>
  C9 (as amended). A document registered with a content that is not empty, and with no
  hash given, is stored with the hash of that content, and the content is deleted from
  the request; verifying the stored document against a content answers \<open>valid = true\<close>
  exactly when that content has the same hash. A document registered with the empty
  content is stored with the hash property of the request as it was; when the request
  had none, verifying the stored document answers \<open>valid = false\<close> for every content.
\<close>

theorem document_roundtrip:
  assumes "dd_content dd = Some c"
    and "\<not> truthy (of_string_opt (dd_sha256Hash dd))"
  shows "\<exists>doc dd' w'. registerDocument H nf inp w dd = Inr (doc, dd', w')
      \<and> getDocument (db w') (documentId doc) = Some doc
      \<and> (c \<noteq> [] \<longrightarrow>
            hashDocument H nf c = Inr (H c)
          \<and> sha256Hash doc = Some (H c)
          \<and> dd_content dd' = None
          \<and> (\<forall>c'. \<exists>v. verifyDocument H nf w' (documentId doc) c' = Inr v
                    \<and> valid v = (hashDocument H nf c' = hashDocument H nf c)))
      \<and> (c = [] \<longrightarrow>
            sha256Hash doc = dd_sha256Hash dd
          \<and> (\<forall>c'. \<exists>v. verifyDocument H nf w' (documentId doc) c' = Inr v
                    \<and> valid v = (dd_sha256Hash dd = Some (H c'))
                    \<and> (dd_sha256Hash dd = None \<longrightarrow> \<not> valid v)))"
proof (cases "c = []")
  case True
  with assms show ?thesis
    by (auto simp: registerDocument_def hashDocument_eq createDocument_def verifyDocument_def
          verifyDocumentHash_def Let_def)
next
  case False
  with assms show ?thesis
    by (simp add: registerDocument_def hashDocument_eq createDocument_def verifyDocument_def
          verifyDocumentHash_def Let_def)
qed

theorem document_roundtrip_witness:
  "dd_content sample_document = Some ''assay report''
   \<and> dd_sha256Hash sample_document = None
   \<and> (\<exists>doc dd' w'. registered_sample = Inr (doc, dd', w')
        \<and> sha256Hash doc = Some (checksum_digest ''assay report'')
        \<and> dd_content dd' = None
        \<and> (\<exists>v. verifyDocument checksum_digest integer_text w' (documentId doc)
                   ''assay report'' = Inr v \<and> valid v))
   \<and> dd_content empty_document = Some []
   \<and> dd_sha256Hash empty_document = None
   \<and> (\<exists>doc dd' w'. registered_empty = Inr (doc, dd', w')
        \<and> sha256Hash doc = None
        \<and> (\<exists>v. verifyDocument checksum_digest integer_text w' (documentId doc)
                   ''assay report'' = Inr v \<and> \<not> valid v))"
proof -
  have h: "dd_content sample_document = Some ''assay report''"
    "\<not> truthy (of_string_opt (dd_sha256Hash sample_document))"
    "dd_sha256Hash sample_document = None"
    by (simp_all add: sample_document_def of_string_opt_def)
  have e: "dd_content empty_document = Some []"
    "\<not> truthy (of_string_opt (dd_sha256Hash empty_document))"
    "dd_sha256Hash empty_document = None"
    by (simp_all add: empty_document_def sample_document_def of_string_opt_def)
  from document_roundtrip [OF h(1) h(2), of checksum_digest integer_text inD empty_world]
  obtain doc dd' w' where r: "registered_sample = Inr (doc, dd', w')"
    "sha256Hash doc = Some (checksum_digest ''assay report'')"
    "dd_content dd' = None"
    "\<forall>c'. \<exists>v. verifyDocument checksum_digest integer_text w' (documentId doc) c' = Inr v
                \<and> valid v = (hashDocument checksum_digest integer_text c'
                             = hashDocument checksum_digest integer_text ''assay report'')"
    unfolding registered_sample_def by auto
  from r(4) obtain v where v:
    "verifyDocument checksum_digest integer_text w' (documentId doc) ''assay report'' = Inr v"
    "valid v"
    by blast
  from document_roundtrip [OF e(1) e(2), of checksum_digest integer_text inD empty_world]
  obtain doc0 dd0 w0 where r0: "registered_empty = Inr (doc0, dd0, w0)"
    "sha256Hash doc0 = dd_sha256Hash empty_document"
    "\<forall>c'. \<exists>v. verifyDocument checksum_digest integer_text w0 (documentId doc0) c' = Inr v
                \<and> valid v = (dd_sha256Hash empty_document = Some (checksum_digest c'))
                \<and> (dd_sha256Hash empty_document = None \<longrightarrow> \<not> valid v)"
    unfolding registered_empty_def by auto
  from r0(3) e(3) obtain v0 where v0:
    "verifyDocument checksum_digest integer_text w0 (documentId doc0) ''assay report'' = Inr v0"
    "\<not> valid v0"
    by blast
  from r(1-3) v r0(1,2) v0 h e show ?thesis
    by auto
qed

theorem empty_content_is_not_hashed:
  "dd_content empty_document = Some []
   \<and> dd_sha256Hash empty_document = None
   \<and> \<not> isl registered_empty
   \<and> documentId (fst (projr registered_empty)) = ''doc-1''
   \<and> sha256Hash (fst (projr registered_empty)) = None
   \<and> hashDocument checksum_digest integer_text [] = Inr ''0000''
   \<and> verifyDocument checksum_digest integer_text (snd (snd (projr registered_empty))) ''doc-1'' []
       = Inr (DocumentChecked False ''doc-1'' ''assay.pdf'' ''0000'' None)"
  by (simp add: registered_empty_def empty_document_def sample_document_def
        registerDocument_def createDocument_def inD_def empty_world_def verifyDocument_def
        verifyDocumentHash_def hashDocument_eq checksum_digest_def hexdigit_def Let_def)

end
